theory Spec2Isabelle
  imports Main "HOL-Library.Word"
begin

section \<open>Data model\<close>

text \<open>
  The program under study is \<^verbatim>\<open>data_preprocess.cpp\<close>: a class \<^verbatim>\<open>BGEEncoder\<close> wrapping an
  inference engine, and a driver \<^verbatim>\<open>main\<close> that reads a JSON array of documents, encodes
  each text and writes the augmented array.

  Two libraries are called but are not part of the program: the inference engine
  (\<^verbatim>\<open>llama.h\<close>) and the JSON library (\<^verbatim>\<open>nlohmann/json.hpp\<close>). The engine is kept opaque:
  its entry points are the fields of a record of functions, and every theorem holds for
  all engines. The JSON accessors the driver uses are written out after the library's
  documented behaviour; its parser, its serialiser and the texts of its exceptions stay
  opaque as well.

  Floating-point values are kept abstract (type variable \<open>'f\<close>); C++ \<^verbatim>\<open>int\<close> and
  \<^verbatim>\<open>llama_token\<close> are 32-bit words, the JSON library's integers are 64-bit words.
\<close>

type_synonym int32 = "32 word"
type_synonym int64 = "64 word"
type_synonym llama_token = "32 word"

text \<open>
  A JSON value as the library stores it: integers are kept either signed
  (\<^verbatim>\<open>number_integer\<close>, read with \<open>sint\<close>) or unsigned (\<^verbatim>\<open>number_unsigned\<close>, read with
  \<open>uint\<close>); every other number, also an integer that fits neither of the two, is a
  \<^verbatim>\<open>number_float\<close>. An object is a key-value list read with \<open>map_of\<close>.
\<close>

datatype 'f json =
    JNull
  | JBool bool
  | JInt int64
  | JUInt int64
  | JFloat 'f
  | JString string
  | JArray "'f json list"
  | JObject "(string \<times> 'f json) list"

text \<open>
  Everything \<^verbatim>\<open>main\<close> catches is a \<^verbatim>\<open>std::exception\<close>: the \<^verbatim>\<open>runtime_error\<close>s thrown by
  the encoder, the JSON library's \<^verbatim>\<open>type_error\<close> (with its numeric id) and \<^verbatim>\<open>parse_error\<close>,
  and the \<^verbatim>\<open>length_error\<close> and \<^verbatim>\<open>bad_alloc\<close> of \<^verbatim>\<open>std::vector\<close>.
\<close>

datatype exn =
    runtime_error string
  | type_error nat
  | parse_error
  | length_error
  | bad_alloc

text \<open>The four fields \<^verbatim>\<open>BGEEncoder\<close>'s constructor sets in \<^verbatim>\<open>llama_context_params\<close>.\<close>

record llama_context_params =
  n_ctx :: nat
  n_batch :: nat
  embeddings :: bool
  no_perf :: bool

text \<open>
  The external libraries. \<open>'m\<close> is a model handle, \<open>'v\<close> a vocabulary handle, \<open>'c\<close>
  the state of an inference context.
  \<^item> \<open>llama_tokenize v text n add_special parse_special\<close> is called with a buffer of \<open>n\<close>
    tokens (\<open>0\<close> for the \<^verbatim>\<open>nullptr\<close> dry run); it gives the returned \<^verbatim>\<open>int32_t\<close> and the tokens
    the engine wrote from the start of the buffer.
  \<^item> \<open>llama_encode c tokens\<close> gives the returned status and the context after the call.
  \<^item> \<open>llama_get_embeddings_seq c seq\<close> is \<open>None\<close> for \<^verbatim>\<open>nullptr\<close>, otherwise the floats
    readable from the returned pointer, by offset.
  \<^item> \<open>json_parse\<close> is \<^verbatim>\<open>in_file >> input_data\<close> (\<open>None\<close>: a \<^verbatim>\<open>parse_error\<close> is thrown),
    \<open>json_dump\<close> is \<^verbatim>\<open>dump(indent)\<close> (it does not throw on what the driver gives it:
    numbers, and strings the parser has accepted), \<open>static_cast_int\<close> is the conversion
    of a floating-point number to \<^verbatim>\<open>int\<close>, \<open>lib_what\<close> the \<^verbatim>\<open>what()\<close> text of an
    exception thrown by a library.
  \<^item> \<open>negation_overflow\<close> is the exception \<^verbatim>\<open>encode\<close> ends with when the dry run
    returns the least \<^verbatim>\<open>int\<close>. Its negation overflows, which the language leaves
    undefined: a build that wraps around throws the tokenization error, an optimised
    build skips that test and throws from the allocation of the token vector. The model
    fixes neither.
\<close>

record ('m, 'v, 'c, 'f) libs =
  llama_load_model_from_file :: "string \<Rightarrow> 'm option"
  llama_model_get_vocab :: "'m \<Rightarrow> 'v"
  llama_n_embd :: "'m \<Rightarrow> int32"
  llama_init_from_model :: "'m \<Rightarrow> llama_context_params \<Rightarrow> 'c option"
  llama_model_has_encoder :: "'m \<Rightarrow> bool"
  llama_tokenize :: "'v \<Rightarrow> string \<Rightarrow> nat \<Rightarrow> bool \<Rightarrow> bool \<Rightarrow> int32 \<times> llama_token list"
  llama_encode :: "'c \<Rightarrow> llama_token list \<Rightarrow> int32 \<times> 'c"
  llama_get_embeddings_seq :: "'c \<Rightarrow> nat \<Rightarrow> (nat \<Rightarrow> 'f) option"
  json_parse :: "string \<Rightarrow> 'f json option"
  json_dump :: "nat \<Rightarrow> 'f json \<Rightarrow> string"
  static_cast_int :: "'f \<Rightarrow> int32"
  lib_what :: "exn \<Rightarrow> string"
  negation_overflow :: exn

text \<open>The calls into the engine, in the order the program makes them.\<close>

datatype ('m, 'c) call =
    Backend_load_all
  | Load_model string
  | Init_from_model 'm llama_context_params
  | Model_free 'm
  | Context_free 'c
  | Tokenize string nat bool bool
  | Encode "llama_token list"
  | Get_embeddings_seq nat

text \<open>
  What the program can observe and change: the lines written to standard output and to
  standard error, the files (by name; a file that is absent cannot be opened for
  reading), the names that can be opened for writing, and the log of engine calls.
\<close>

record ('m, 'c) world =
  stdout :: "string list"
  stderr :: "string list"
  files :: "string \<rightharpoonup> string"
  writable :: "string \<Rightarrow> bool"
  calls :: "('m, 'c) call list"

definition print_out :: "string \<Rightarrow> ('m, 'c) world \<Rightarrow> ('m, 'c) world" where
  "print_out s w = w\<lparr>stdout := stdout w @ [s]\<rparr>"

definition print_err :: "string \<Rightarrow> ('m, 'c) world \<Rightarrow> ('m, 'c) world" where
  "print_err s w = w\<lparr>stderr := stderr w @ [s]\<rparr>"

definition call :: "('m, 'c) call \<Rightarrow> ('m, 'c) world \<Rightarrow> ('m, 'c) world" where
  "call c w = w\<lparr>calls := calls w @ [c]\<rparr>"

text \<open>Decimal output of \<^verbatim>\<open>operator<<\<close> for \<^verbatim>\<open>size_t\<close> and \<^verbatim>\<open>int\<close>.\<close>

function show_nat :: "nat \<Rightarrow> string" where
  "show_nat n =
     (if n < 10 then [''0123456789'' ! n]
      else show_nat (n div 10) @ [''0123456789'' ! (n mod 10)])"
  by pat_completeness auto
termination
  by (relation "measure (\<lambda>n. n)") auto

declare show_nat.simps [simp del]

definition show_int :: "int \<Rightarrow> string" where
  "show_int k = (if k < 0 then CHR ''-'' # show_nat (nat (- k)) else show_nat (nat k))"

section \<open>The JSON accessors used by the driver\<close>

text \<open>
  \<^verbatim>\<open>size()\<close>: 0 for null, the number of elements of an array, the number of keys of an
  object, 1 otherwise.
\<close>

fun json_size :: "'f json \<Rightarrow> nat" where
  "json_size JNull = 0"
| "json_size (JArray xs) = length xs"
| "json_size (JObject kvs) = length (remdups (map fst kvs))"
| "json_size _ = 1"

text \<open>
  \<^verbatim>\<open>operator[](size_t)\<close> on a non-const value: an array gives its element (an index past
  the end first fills the array with nulls, as a null value does), every other value
  throws \<^verbatim>\<open>type_error\<close> 305.
\<close>

fun json_at :: "'f json \<Rightarrow> nat \<Rightarrow> exn + 'f json" where
  "json_at (JArray xs) i = (if i < length xs then Inr (xs ! i) else Inr JNull)"
| "json_at JNull i = Inr JNull"
| "json_at _ i = Inl (type_error 305)"

text \<open>
  \<^verbatim>\<open>operator[](key)\<close> on a non-const value: an object gives the value stored under the
  key, and a null value for a key it does not have (the library inserts that null, and
  turns a null document into an object first; the driver reads the result at once and
  never looks at the document again); every other value throws \<^verbatim>\<open>type_error\<close> 305.
\<close>

fun json_index :: "'f json \<Rightarrow> string \<Rightarrow> exn + 'f json" where
  "json_index (JObject kvs) k = (case map_of kvs k of None \<Rightarrow> Inr JNull | Some v \<Rightarrow> Inr v)"
| "json_index JNull k = Inr JNull"
| "json_index _ k = Inl (type_error 305)"

text \<open>\<^verbatim>\<open>get<std::string>()\<close>: a string, or \<^verbatim>\<open>type_error\<close> 302.\<close>

fun get_string :: "'f json \<Rightarrow> exn + string" where
  "get_string (JString s) = Inr s"
| "get_string _ = Inl (type_error 302)"

text \<open>
  \<^verbatim>\<open>get<int>()\<close>: the library converts every number and also a boolean with a
  \<^verbatim>\<open>static_cast<int>\<close>; a 64-bit integer keeps its low 32 bits. Every other value throws
  \<^verbatim>\<open>type_error\<close> 302.
\<close>

fun get_int :: "('m, 'v, 'c, 'f) libs \<Rightarrow> 'f json \<Rightarrow> exn + int32" where
  "get_int L (JInt n) = Inr (ucast n)"
| "get_int L (JUInt n) = Inr (ucast n)"
| "get_int L (JFloat x) = Inr (static_cast_int L x)"
| "get_int L (JBool b) = Inr (if b then 1 else 0)"
| "get_int L _ = Inl (type_error 302)"

section \<open>The encoder\<close>

record ('m, 'v, 'c) BGEEncoder =
  model :: 'm
  ctx :: 'c
  vocab :: 'v
  n_embd :: int32

definition ctx_params :: llama_context_params where
  "ctx_params = \<lparr>n_ctx = 512, n_batch = 512, embeddings = True, no_perf = False\<rparr>"

text \<open>
  The constructor. A \<^verbatim>\<open>throw\<close> is the result \<open>Inl\<close>; no encoder exists then, and the
  destructor does not run.
\<close>

definition BGEEncoder_new ::
  "('m, 'v, 'c, 'f) libs \<Rightarrow> string \<Rightarrow> ('m, 'c) world \<Rightarrow> (exn + ('m, 'v, 'c) BGEEncoder) \<times> ('m, 'c) world"
where
  "BGEEncoder_new L model_path w0 =
     (let w1 = call Backend_load_all w0;
          w2 = call (Load_model model_path) w1
      in case llama_load_model_from_file L model_path of
           None \<Rightarrow> (Inl (runtime_error (''Failed to load model from: '' @ model_path)), w2)
         | Some m \<Rightarrow>
             let v = llama_model_get_vocab L m;
                 n = llama_n_embd L m;
                 w3 = print_out (''Model loaded. Embedding dimension: '' @ show_int (sint n)) w2;
                 w4 = (if n \<noteq> 768
                       then print_err (''Warning: Expected embedding dimension 768, got ''
                                        @ show_int (sint n)) w3
                       else w3);
                 w5 = call (Init_from_model m ctx_params) w4
             in (case llama_init_from_model L m ctx_params of
                   None \<Rightarrow>
                     (Inl (runtime_error ''Failed to create context''), call (Model_free m) w5)
                 | Some c \<Rightarrow>
                     let w6 = (if \<not> llama_model_has_encoder L m
                               then print_err ''Warning: Model does not appear to be an encoder model'' w5
                               else w5)
                     in (Inr \<lparr>model = m, ctx = c, vocab = v, n_embd = n\<rparr>, w6)))"

text \<open>The destructor of a constructed encoder: both handles are non-null.\<close>

definition BGEEncoder_delete ::
  "('m, 'v, 'c) BGEEncoder \<Rightarrow> ('m, 'c) world \<Rightarrow> ('m, 'c) world"
where
  "BGEEncoder_delete enc w = call (Model_free (model enc)) (call (Context_free (ctx enc)) w)"

text \<open>
  \<^verbatim>\<open>encode\<close>. The token count is the negation of the dry run's result; when that result
  is the least \<^verbatim>\<open>int\<close> the negation overflows and the call ends with the exception the
  model leaves open (\<open>negation_overflow\<close>), after the dry run alone. The token vector
  has \<open>n_tokens\<close> zero-initialised elements, over which the engine writes. The result
  copies \<open>n_embd\<close> floats from the returned pointer. For a negative \<open>n_embd\<close> the
  vector's range constructor is given an end before its start, which the language leaves
  undefined; the model takes what the standard library does with the length it computes,
  a \<^verbatim>\<open>length_error\<close>, so that such a call is never a success. The context is changed by
  \<^verbatim>\<open>llama_encode\<close>, so the encoder is returned with it.
\<close>

definition encode ::
  "('m, 'v, 'c, 'f) libs \<Rightarrow> ('m, 'v, 'c) BGEEncoder \<Rightarrow> string \<Rightarrow> ('m, 'c) world
     \<Rightarrow> (exn + 'f list) \<times> ('m, 'v, 'c) BGEEncoder \<times> ('m, 'c) world"
where
  "encode L enc text w0 =
     (let w1 = call (Tokenize text 0 True True) w0;
          dry = fst (llama_tokenize L (vocab enc) text 0 True True)
      in if sint dry = - (2 ^ 31) then (Inl (negation_overflow L), enc, w1)
         else
           let n_tokens = - dry
           in if sint n_tokens \<le> 0
              then (Inl (runtime_error ''Failed to tokenize text''), enc, w1)
              else
                let n = nat (sint n_tokens);
                    w2 = call (Tokenize text n True True) w1;
                    r = llama_tokenize L (vocab enc) text n True True
                in if sint (fst r) < 0
                   then (Inl (runtime_error ''Failed to tokenize text''), enc, w2)
                   else
                     let tokens = take n (snd r @ replicate n 0);
                         w3 = call (Encode tokens) w2;
                         e = llama_encode L (ctx enc) tokens;
                         enc' = enc\<lparr>ctx := snd e\<rparr>
                     in if fst e \<noteq> 0
                        then (Inl (runtime_error ''Failed to encode batch''), enc', w3)
                        else
                          let w4 = call (Get_embeddings_seq 0) w3
                          in (case llama_get_embeddings_seq L (ctx enc') 0 of
                                None \<Rightarrow> (Inl (runtime_error ''Failed to get embeddings''), enc', w4)
                              | Some embd \<Rightarrow>
                                  if sint (n_embd enc') < 0 then (Inl length_error, enc', w4)
                                  else (Inr (map embd [0..<nat (sint (n_embd enc'))]), enc', w4)))"

definition get_embedding_dim :: "('m, 'v, 'c) BGEEncoder \<Rightarrow> int32" where
  "get_embedding_dim enc = n_embd enc"

section \<open>The driver\<close>

definition model_path :: string where
  "model_path = ''bge-base-en-v1.5-f32.gguf''"

definition input_file :: string where
  "input_file = ''documents.json''"

definition output_file :: string where
  "output_file = ''preprocessed_documents.json''"

definition progress_line :: "nat \<Rightarrow> nat \<Rightarrow> string" where
  "progress_line i n = ''Processing document '' @ show_nat i @ ''/'' @ show_nat n @ ''...''"

text \<open>
  The output entry. \<^verbatim>\<open>entry\<close> starts as null; the three assignments through
  \<^verbatim>\<open>operator[]\<close> make it an object with the keys \<^verbatim>\<open>id\<close> (a signed integer: the
  \<^verbatim>\<open>int\<close> sign-extended), \<^verbatim>\<open>text\<close> and \<^verbatim>\<open>embedding\<close> (an array of floating-point
  numbers).
\<close>

definition make_entry :: "int32 \<Rightarrow> string \<Rightarrow> 'f list \<Rightarrow> 'f json" where
  "make_entry id' text embedding =
     JObject [(''id'', JInt (scast id')), (''text'', JString text),
              (''embedding'', JArray (map JFloat embedding))]"

text \<open>One pass through the body of the loop, for index \<open>i\<close>.\<close>

definition process_doc ::
  "('m, 'v, 'c, 'f) libs \<Rightarrow> 'f json \<Rightarrow> nat \<Rightarrow> ('m, 'v, 'c) BGEEncoder \<Rightarrow> ('m, 'c) world
     \<Rightarrow> (exn + 'f json) \<times> ('m, 'v, 'c) BGEEncoder \<times> ('m, 'c) world"
where
  "process_doc L input_data i encoder w0 =
     (case json_at input_data i of
        Inl e \<Rightarrow> (Inl e, encoder, w0)
      | Inr doc \<Rightarrow>
          let w1 = (if i mod 100 = 0
                    then print_out (progress_line i (json_size input_data)) w0 else w0)
          in (case json_index doc ''text'' of
               Inl e \<Rightarrow> (Inl e, encoder, w1)
             | Inr jt \<Rightarrow>
                (case get_string jt of
                   Inl e \<Rightarrow> (Inl e, encoder, w1)
                 | Inr text \<Rightarrow>
                    (case json_index doc ''id'' of
                       Inl e \<Rightarrow> (Inl e, encoder, w1)
                     | Inr ji \<Rightarrow>
                        (case get_int L ji of
                           Inl e \<Rightarrow> (Inl e, encoder, w1)
                         | Inr id' \<Rightarrow>
                            (case encode L encoder text w1 of
                               (Inl e, encoder', w2) \<Rightarrow> (Inl e, encoder', w2)
                             | (Inr embedding, encoder', w2) \<Rightarrow>
                                 (Inr (make_entry id' text embedding), encoder', w2)))))))"

text \<open>The loop from index \<open>i\<close> on, with the output array built so far.\<close>

function process_from ::
  "('m, 'v, 'c, 'f) libs \<Rightarrow> 'f json \<Rightarrow> nat \<Rightarrow> ('m, 'v, 'c) BGEEncoder \<Rightarrow> 'f json list
     \<Rightarrow> ('m, 'c) world \<Rightarrow> (exn + 'f json list) \<times> ('m, 'v, 'c) BGEEncoder \<times> ('m, 'c) world"
where
  "process_from L input_data i encoder output_data w =
     (if i < json_size input_data then
        (case process_doc L input_data i encoder w of
           (Inl e, encoder', w') \<Rightarrow> (Inl e, encoder', w')
         | (Inr entry, encoder', w') \<Rightarrow>
             process_from L input_data (i + 1) encoder' (output_data @ [entry]) w')
      else (Inr output_data, encoder, w))"
  by pat_completeness auto
termination
  by (relation "measure (\<lambda>(L, input_data, i, encoder, output_data, w). json_size input_data - i)")
     auto

declare process_from.simps [simp del]

definition what :: "('m, 'v, 'c, 'f) libs \<Rightarrow> exn \<Rightarrow> string" where
  "what L e = (case e of runtime_error msg \<Rightarrow> msg | _ \<Rightarrow> lib_what L e)"

text \<open>
  The \<^verbatim>\<open>try\<close> block after the input file has been opened and read. \<open>Inl\<close> is an exception
  on its way to the handler, \<open>Inr\<close> the value of a \<^verbatim>\<open>return\<close>. Once the encoder exists its
  destructor runs on every way out. The output file is changed only by a successful open,
  and then holds the serialised array.
\<close>

definition try_block ::
  "('m, 'v, 'c, 'f) libs \<Rightarrow> string \<Rightarrow> ('m, 'c) world \<Rightarrow> (exn + nat) \<times> ('m, 'c) world"
where
  "try_block L content w1 =
     (case json_parse L content of
        None \<Rightarrow> (Inl parse_error, w1)
      | Some input_data \<Rightarrow>
          let w2 = print_out (''Found '' @ show_nat (json_size input_data) @ '' documents'') w1;
              w3 = print_out (''Loading BGE model from '' @ model_path @ ''...'') w2
          in (case BGEEncoder_new L model_path w3 of
               (Inl e, w4) \<Rightarrow> (Inl e, w4)
             | (Inr encoder, w4) \<Rightarrow>
                (case process_from L input_data 0 encoder [] w4 of
                   (Inl e, encoder', w5) \<Rightarrow> (Inl e, BGEEncoder_delete encoder' w5)
                 | (Inr output_data, encoder', w5) \<Rightarrow>
                     let w6 = print_out (''Writing results to '' @ output_file @ ''...'') w5
                     in if \<not> writable w6 output_file
                        then (Inr 1, BGEEncoder_delete encoder'
                                (print_err (''Error: Could not open '' @ output_file @ '' for writing'') w6))
                        else
                          let w7 = w6\<lparr>files := (files w6)(output_file \<mapsto> json_dump L 2 (JArray output_data))\<rparr>;
                              w8 = print_out (''Successfully processed '' @ show_nat (length output_data)
                                                @ '' documents'') w7;
                              w9 = print_out (''Output saved to '' @ output_file) w8
                          in (Inr 0, BGEEncoder_delete encoder' w9))))"

text \<open>\<^verbatim>\<open>main\<close>: the exit code and the world it leaves.\<close>

definition main :: "('m, 'v, 'c, 'f) libs \<Rightarrow> ('m, 'c) world \<Rightarrow> nat \<times> ('m, 'c) world" where
  "main L w0 =
     (let w1 = print_out (''Loading documents from '' @ input_file @ ''...'') w0
      in (case files w1 input_file of
            None \<Rightarrow> (1, print_err (''Error: Could not open '' @ input_file) w1)
          | Some content \<Rightarrow>
             (case try_block L content w1 of
                (Inl e, w2) \<Rightarrow> (1, print_err (''Error: '' @ what L e) w2)
              | (Inr rc, w2) \<Rightarrow> (rc, w2))))"

section \<open>Observations used in the statements\<close>

text \<open>
  The library's type tests. \<^verbatim>\<open>is_number_integer()\<close> holds for both integer
  representations; \<open>integer_value\<close> is the number such a value stands for.
\<close>

fun is_string :: "'f json \<Rightarrow> bool" where
  "is_string (JString s) = True"
| "is_string _ = False"

fun is_boolean :: "'f json \<Rightarrow> bool" where
  "is_boolean (JBool b) = True"
| "is_boolean _ = False"

fun is_number_integer :: "'f json \<Rightarrow> bool" where
  "is_number_integer (JInt n) = True"
| "is_number_integer (JUInt n) = True"
| "is_number_integer _ = False"

fun is_number :: "'f json \<Rightarrow> bool" where
  "is_number (JFloat x) = True"
| "is_number j = is_number_integer j"

fun integer_value :: "'f json \<Rightarrow> int" where
  "integer_value (JInt n) = sint n"
| "integer_value (JUInt n) = uint n"
| "integer_value _ = 0"

text \<open>
  What the body of the loop reads from a document before it calls the encoder: the
  text and the identifier, or the first exception on the way.
\<close>

definition doc_fields :: "('m, 'v, 'c, 'f) libs \<Rightarrow> 'f json \<Rightarrow> exn + string \<times> int32" where
  "doc_fields L doc =
     (case json_index doc ''text'' of
        Inl e \<Rightarrow> Inl e
      | Inr jt \<Rightarrow>
         (case get_string jt of
            Inl e \<Rightarrow> Inl e
          | Inr t \<Rightarrow>
             (case json_index doc ''id'' of
                Inl e \<Rightarrow> Inl e
              | Inr ji \<Rightarrow>
                 (case get_int L ji of
                    Inl e \<Rightarrow> Inl e
                  | Inr id' \<Rightarrow> Inr (t, id')))))"

text \<open>
  The model handles that are loaded and not yet freed after a sequence of engine calls.
\<close>

fun track_model :: "('m, 'v, 'c, 'f) libs \<Rightarrow> ('m, 'c) call \<Rightarrow> 'm list \<Rightarrow> 'm list" where
  "track_model L (Load_model p) ms =
     (case llama_load_model_from_file L p of None \<Rightarrow> ms | Some m \<Rightarrow> m # ms)"
| "track_model L (Model_free m) ms = remove1 m ms"
| "track_model L _ ms = ms"

definition live_models :: "('m, 'v, 'c, 'f) libs \<Rightarrow> ('m, 'c) call list \<Rightarrow> 'm list" where
  "live_models L cs = fold (track_model L) cs []"

section \<open>A concrete engine\<close>

text \<open>
  A small engine and world to run the program on. Every text of \<open>k\<close> bytes has
  \<open>k + 2\<close> tokens, the model has dimension 3, the context counts the tokens it has
  encoded and the embedding starts at that count. The input file parses to the given
  value; the serialiser writes only the identifiers of the records of an array, each
  followed by a comma.
\<close>

definition toy_dump :: "nat json \<Rightarrow> string" where
  "toy_dump j =
     (case j of
        JArray xs \<Rightarrow>
          concat (map (\<lambda>e. case json_index e ''id'' of
                              Inr (JInt n) \<Rightarrow> show_int (sint n) @ '',''
                            | _ \<Rightarrow> ''?,'') xs)
      | _ \<Rightarrow> ''?'')"

definition toy_libs :: "nat json \<Rightarrow> (unit, unit, nat, nat) libs" where
  "toy_libs input =
     \<lparr>llama_load_model_from_file = (\<lambda>p. Some ()),
      llama_model_get_vocab = (\<lambda>m. ()),
      llama_n_embd = (\<lambda>m. 3),
      llama_init_from_model = (\<lambda>m p. Some 0),
      llama_model_has_encoder = (\<lambda>m. True),
      llama_tokenize = (\<lambda>v text n add_special parse_special.
         if n < length text + 2 then (- word_of_nat (length text + 2), [])
         else (word_of_nat (length text + 2), replicate (length text + 2) 7)),
      llama_encode = (\<lambda>c tokens. (0, c + length tokens)),
      llama_get_embeddings_seq = (\<lambda>c seq. Some (\<lambda>k. c + k)),
      json_parse = (\<lambda>s. Some input),
      json_dump = (\<lambda>indent j. toy_dump j),
      static_cast_int = word_of_nat,
      lib_what = (\<lambda>e. ''library exception''),
      negation_overflow = bad_alloc\<rparr>"

definition toy_world :: "(unit, nat) world" where
  "toy_world = \<lparr>stdout = [], stderr = [], files = [input_file \<mapsto> ''''],
                writable = (\<lambda>p. True), calls = []\<rparr>"

definition toy_encoder :: "(unit, unit, nat) BGEEncoder" where
  "toy_encoder = \<lparr>model = (), ctx = 0, vocab = (), n_embd = 3\<rparr>"

text \<open>
  Variants: an engine that cannot create a context, an engine whose tokenizer always
  answers \<open>-1\<close> (so that the call with the buffer fails too), and a world in which no
  file can be opened for writing.
\<close>

definition no_context_libs :: "(unit, unit, nat, nat) libs" where
  "no_context_libs = (toy_libs JNull)\<lparr>llama_init_from_model := (\<lambda>m p. None)\<rparr>"

definition failing_tokenizer_libs :: "(unit, unit, nat, nat) libs" where
  "failing_tokenizer_libs =
     (toy_libs JNull)\<lparr>llama_tokenize := (\<lambda>v text n add_special parse_special. (- 1, []))\<rparr>"

definition read_only_world :: "(unit, nat) world" where
  "read_only_world = toy_world\<lparr>writable := (\<lambda>p. False)\<rparr>"

text \<open>
  Two more variants. In the first the embedding the engine returns is the same
  whatever the context has seen, while the context still counts the tokens it has
  encoded. In the second a floating-point number too large for an \<^verbatim>\<open>int\<close> is converted to
  the least \<^verbatim>\<open>int\<close>, as the conversion instruction of common processors does.
\<close>

definition stateless_libs :: "(unit, unit, nat, nat) libs" where
  "stateless_libs = (toy_libs JNull)\<lparr>llama_get_embeddings_seq := (\<lambda>c seq. Some (\<lambda>k. k))\<rparr>"

definition saturating_libs :: "nat json \<Rightarrow> (unit, unit, nat, nat) libs" where
  "saturating_libs input =
     (toy_libs input)\<lparr>static_cast_int :=
        (\<lambda>x. if x < 2147483648 then word_of_nat x else - 2147483648)\<rparr>"

text \<open>Inputs: two well-formed documents, and 250 copies of one document.\<close>

definition toy_doc :: "nat json" where
  "toy_doc = JObject [(''id'', JUInt 7), (''text'', JString ''ab'')]"

definition toy_docs :: "nat json list" where
  "toy_docs = [toy_doc, JObject [(''text'', JString ''c''), (''id'', JInt (- 2))]]"

definition toy_many :: "nat json" where
  "toy_many = JArray (replicate 250 toy_doc)"

text \<open>
  Further inputs: one document with an identifier beyond 32 bits, one document with a
  boolean identifier, and a well-formed document followed by one without its text.
\<close>

definition wide_id_docs :: "nat json list" where
  "wide_id_docs = [JObject [(''id'', JUInt 4294967297), (''text'', JString ''ab'')]]"

definition bool_id_docs :: "nat json list" where
  "bool_id_docs = [JObject [(''id'', JBool True), (''text'', JString ''ab'')]]"

definition no_text_docs :: "nat json list" where
  "no_text_docs = [toy_doc, JObject [(''id'', JUInt 8)]]"

text \<open>
  One document whose identifier is the integer \<open>2\<^sup>6\<^sup>4\<close>: it fits neither 64-bit
  representation, so the library holds it as a floating-point number.
\<close>

definition huge_id_docs :: "nat json list" where
  "huge_id_docs = [JObject [(''id'', JFloat 18446744073709551616), (''text'', JString ''ab'')]]"

section \<open>Basic facts\<close>

lemma print_out_simps [simp]:
  "stdout (print_out s w) = stdout w @ [s]" "stderr (print_out s w) = stderr w"
  "files (print_out s w) = files w" "writable (print_out s w) = writable w"
  "calls (print_out s w) = calls w"
  by (simp_all add: print_out_def)

lemma print_err_simps [simp]:
  "stdout (print_err s w) = stdout w" "stderr (print_err s w) = stderr w @ [s]"
  "files (print_err s w) = files w" "writable (print_err s w) = writable w"
  "calls (print_err s w) = calls w"
  by (simp_all add: print_err_def)

lemma call_simps [simp]:
  "stdout (call c w) = stdout w" "stderr (call c w) = stderr w"
  "files (call c w) = files w" "writable (call c w) = writable w"
  "calls (call c w) = calls w @ [c]"
  by (simp_all add: call_def)

lemma BGEEncoder_delete_simps [simp]:
  "stdout (BGEEncoder_delete enc w) = stdout w" "stderr (BGEEncoder_delete enc w) = stderr w"
  "files (BGEEncoder_delete enc w) = files w" "writable (BGEEncoder_delete enc w) = writable w"
  by (simp_all add: BGEEncoder_delete_def)

subsection \<open>Narrowing and widening of integers\<close>

lemma sint_ucast_64_32: "sint (ucast (w :: 64 word) :: 32 word) = signed_take_bit 31 (uint w)"
  by (simp add: signed_ucast_eq)

lemma stb_uint_sint: "signed_take_bit 31 (uint (w :: 64 word)) = signed_take_bit 31 (sint w)"
proof -
  have "signed_take_bit (31::nat) (sint w) = signed_take_bit 31 (signed_take_bit 63 (uint w))"
    by (simp add: sint_uint)
  also have "\<dots> = signed_take_bit 31 (uint w)"
    by (simp add: signed_take_bit_signed_take_bit)
  finally show ?thesis by simp
qed

lemma sint_scast_32_64: "sint (scast (x :: 32 word) :: 64 word) = sint x"
proof -
  have "- (2 ^ 31) \<le> sint x" "sint x < 2 ^ 31"
    using sint_ge [of x] sint_lt [of x] by simp_all
  then have "- (2 ^ 63) \<le> sint x" "sint x < 2 ^ 63"
    by simp_all
  then show ?thesis
    by (simp add: signed_scast_eq signed_take_bit_int_eq_self_iff)
qed

lemma sint_uminus:
  fixes x :: int32
  assumes "sint x \<noteq> - (2 ^ 31)"
  shows "sint (- x) = - sint x"
proof -
  have "- (2 ^ 31) \<le> sint x" "sint x < 2 ^ 31"
    using sint_ge [of x] sint_lt [of x] by simp_all
  with assms have "- (2 ^ 31) \<le> - sint x" "- sint x < 2 ^ 31"
    by simp_all
  then have "signed_take_bit 31 (- sint x) = - sint x"
    by (simp add: signed_take_bit_int_eq_self_iff)
  moreover have "sint (- x) = signed_take_bit 31 (- sint x)"
    by (simp add: sint_word_ariths)
  ultimately show ?thesis by simp
qed

lemma stb_mod: "signed_take_bit 31 (k::int) = (k + 2 ^ 31) mod 2 ^ 32 - 2 ^ 31"
  by (simp add: signed_take_bit_eq_take_bit_shift take_bit_eq_mod)

lemma stb_self: "- (2 ^ 31) \<le> k \<Longrightarrow> k < 2 ^ 31 \<Longrightarrow> signed_take_bit 31 (k::int) = k"
  by (simp add: signed_take_bit_int_eq_self_iff)

lemma stb_neq: "\<not> (- (2 ^ 31) \<le> k \<and> k < 2 ^ 31) \<Longrightarrow> signed_take_bit 31 (k::int) \<noteq> k"
  by (simp add: signed_take_bit_int_eq_self_iff)

subsection \<open>The accessors\<close>

lemma get_int_integer:
  assumes "is_number_integer idv"
  shows "\<exists>id'. get_int L idv = Inr id' \<and> sint id' = signed_take_bit 31 (integer_value idv)"
  using assms by (cases idv) (simp_all add: sint_ucast_64_32 stb_uint_sint)

lemma integer_value_range:
  assumes "is_number_integer idv"
  shows "- (2 ^ 63) \<le> integer_value idv \<and> integer_value idv < 2 ^ 64"
proof (cases idv)
  case (JInt n)
  have "- (2 ^ 63) \<le> sint n" "sint n < 2 ^ 63"
    using sint_ge [of n] sint_lt [of n] by simp_all
  with JInt show ?thesis by simp
next
  case (JUInt n)
  have "0 \<le> uint n" "uint n < 2 ^ 64"
    using uint_lt2p [of n] by simp_all
  moreover have "- (2 ^ 63) \<le> (0::int)"
    by simp
  ultimately have "- (2 ^ 63) \<le> uint n \<and> uint n < 2 ^ 64"
    by (meson order_trans)
  with JUInt show ?thesis by simp
qed (use assms in simp_all)

lemma doc_fields_Inr:
  assumes "doc_fields L doc = Inr (t, id')"
  shows "\<exists>jt ji. json_index doc ''text'' = Inr jt \<and> get_string jt = Inr t
           \<and> json_index doc ''id'' = Inr ji \<and> get_int L ji = Inr id'"
  using assms by (auto simp: doc_fields_def split: sum.split_asm)

lemma make_entry_index:
  "json_index (make_entry id' t emb) ''id'' = Inr (JInt (scast id'))"
  "json_index (make_entry id' t emb) ''text'' = Inr (JString t)"
  "json_index (make_entry id' t emb) ''embedding'' = Inr (JArray (map JFloat emb))"
  by (simp_all add: make_entry_def)

subsection \<open>The encoder\<close>

lemma encode_length:
  assumes "fst (encode L enc t w) = Inr embedding"
  shows "int (length embedding) = sint (n_embd enc)"
  using assms by (auto simp: encode_def Let_def split: option.splits if_splits)

lemma encode_props:
  assumes "encode L enc t w = (r, enc', w')"
  shows "files w' = files w" "writable w' = writable w" "stdout w' = stdout w"
    "stderr w' = stderr w" "n_embd enc' = n_embd enc" "model enc' = model enc"
    "vocab enc' = vocab enc"
  using assms by (auto simp: encode_def Let_def split: if_splits option.splits)

lemma encode_Inr_length:
  assumes "encode L enc t w = (Inr emb, enc', w')"
  shows "int (length emb) = sint (n_embd enc)"
  using assms encode_length [of L enc t w emb] by simp

text \<open>
  The outcome of \<open>encode\<close> depends on the encoder through its vocabulary, its
  dimension, and what the engine makes of its context.
\<close>

lemma encode_fst_cong:
  assumes "vocab enc' = vocab enc" and "n_embd enc' = n_embd enc"
    and "\<forall>c c' tokens.
             fst (llama_encode L c tokens) = fst (llama_encode L c' tokens)
           \<and> llama_get_embeddings_seq L (snd (llama_encode L c tokens)) 0
               = llama_get_embeddings_seq L (snd (llama_encode L c' tokens)) 0"
  shows "fst (encode L enc' t w') = fst (encode L enc t w)"
proof -
  have s: "fst (llama_encode L (ctx enc') tokens) = fst (llama_encode L (ctx enc) tokens)"
    and g: "llama_get_embeddings_seq L (snd (llama_encode L (ctx enc') tokens)) 0
              = llama_get_embeddings_seq L (snd (llama_encode L (ctx enc) tokens)) 0"
    for tokens
    using assms(3) by blast+
  show ?thesis
    by (simp add: encode_def Let_def assms(1,2) s g split: option.splits)
qed

lemma BGEEncoder_new_world:
  assumes "BGEEncoder_new L p w = (r, w1)"
  shows "files w1 = files w \<and> writable w1 = writable w"
  using assms by (auto simp: BGEEncoder_new_def Let_def split: option.splits)

lemma BGEEncoder_new_Inr:
  assumes "BGEEncoder_new L p w = (Inr enc, w1)"
  shows "\<exists>m c. llama_load_model_from_file L p = Some m
           \<and> llama_init_from_model L m ctx_params = Some c
           \<and> n_embd enc = llama_n_embd L m
           \<and> stdout w1 = stdout w @ [''Model loaded. Embedding dimension: ''
                                       @ show_int (sint (llama_n_embd L m))]"
  using assms by (auto simp: BGEEncoder_new_def Let_def split: option.split_asm)

lemma BGEEncoder_new_Inr_iff:
  "(\<exists>enc. fst (BGEEncoder_new L p w) = Inr enc)
     \<longleftrightarrow> (\<exists>m c. llama_load_model_from_file L p = Some m
                 \<and> llama_init_from_model L m ctx_params = Some c)"
  by (auto simp: BGEEncoder_new_def Let_def split: option.splits)

lemma BGEEncoder_new_fst:
  "fst (BGEEncoder_new L p w) = fst (BGEEncoder_new L p w0)"
  by (simp add: BGEEncoder_new_def Let_def split: option.splits)

subsection \<open>The body of the loop\<close>

lemma process_doc_props:
  assumes "process_doc L input i enc w = (r, enc', w')"
  shows "files w' = files w" "writable w' = writable w"
    "stderr w' = stderr w" "n_embd enc' = n_embd enc" "model enc' = model enc"
  using assms
  by (auto simp: process_doc_def Let_def split: sum.splits prod.splits if_splits
      dest: encode_props)

lemma process_doc_Inr:
  assumes "process_doc L input i enc w = (Inr entry, enc', w')"
  shows "\<exists>doc t id' emb. json_at input i = Inr doc \<and> doc_fields L doc = Inr (t, id')
           \<and> entry = make_entry id' t emb \<and> int (length emb) = sint (n_embd enc)"
    and "stdout w' = stdout w @ (if i mod 100 = 0 then [progress_line i (json_size input)] else [])"
proof -
  from assms obtain doc jt t ji id' emb w1
    where f: "json_at input i = Inr doc" "json_index doc ''text'' = Inr jt"
      "get_string jt = Inr t" "json_index doc ''id'' = Inr ji" "get_int L ji = Inr id'"
      "encode L enc t w1 = (Inr emb, enc', w')" "entry = make_entry id' t emb"
      "w1 = (if i mod 100 = 0 then print_out (progress_line i (json_size input)) w else w)"
    by (auto simp: process_doc_def Let_def split: sum.split_asm prod.split_asm)
  from f have "doc_fields L doc = Inr (t, id')"
    by (simp add: doc_fields_def)
  moreover from f have "int (length emb) = sint (n_embd enc)"
    by (auto dest: encode_Inr_length)
  ultimately show "\<exists>doc t id' emb. json_at input i = Inr doc \<and> doc_fields L doc = Inr (t, id')
           \<and> entry = make_entry id' t emb \<and> int (length emb) = sint (n_embd enc)"
    using f by blast
  from f have "stdout w' = stdout w1" by (auto dest: encode_props)
  with f show "stdout w' = stdout w @ (if i mod 100 = 0 then [progress_line i (json_size input)] else [])"
    by simp
qed

lemma process_doc_stdout:
  assumes "json_at input i = Inr doc"
  shows "stdout (snd (snd (process_doc L input i enc w)))
           = stdout w @ (if i mod 100 = 0 then [progress_line i (json_size input)] else [])"
  using assms
  by (auto simp: process_doc_def Let_def split: sum.splits prod.splits dest: encode_props(3))

subsection \<open>The loop\<close>

lemma process_from_stop:
  "\<not> i < json_size input \<Longrightarrow> process_from L input i enc out w = (Inr out, enc, w)"
  by (simp add: process_from.simps)

lemma process_from_err:
  "i < json_size input \<Longrightarrow> process_doc L input i enc w = (Inl e, enc', w')
     \<Longrightarrow> process_from L input i enc out w = (Inl e, enc', w')"
  by (simp add: process_from.simps)

lemma process_from_step:
  "i < json_size input \<Longrightarrow> process_doc L input i enc w = (Inr entry, enc', w')
     \<Longrightarrow> process_from L input i enc out w = process_from L input (i + 1) enc' (out @ [entry]) w'"
  by (simp add: process_from.simps)

text \<open>Whatever its outcome, the loop leaves the files alone and keeps the dimension.\<close>

lemma process_from_props:
  assumes "process_from L input i enc out w = (r, enc', w')"
  shows "files w' = files w \<and> writable w' = writable w \<and> stderr w' = stderr w
       \<and> n_embd enc' = n_embd enc \<and> model enc' = model enc"
  using assms
proof (induction "json_size input - i" arbitrary: i enc out w)
  case 0
  then show ?case by (simp add: process_from_stop)
next
  case (Suc n)
  then have lt: "i < json_size input" by simp
  obtain r1 enc1 w1 where pd: "process_doc L input i enc w = (r1, enc1, w1)"
    by (cases "process_doc L input i enc w") auto
  note p = process_doc_props [OF pd]
  show ?case
  proof (cases r1)
    case (Inl e)
    with Suc.prems lt pd p show ?thesis by (simp add: process_from_err)
  next
    case (Inr entry)
    with Suc.prems lt pd
    have "process_from L input (i + 1) enc1 (out @ [entry]) w1 = (r, enc', w')"
      by (simp add: process_from_step)
    moreover from Suc.hyps lt have "n = json_size input - (i + 1)" by simp
    ultimately have "files w' = files w1 \<and> writable w' = writable w1 \<and> stderr w' = stderr w1
       \<and> n_embd enc' = n_embd enc1 \<and> model enc' = model enc1"
      by (rule Suc.hyps(1) [rotated])
    with p show ?thesis by simp
  qed
qed

text \<open>
  A loop that ends without an exception has appended one entry for every index from
  \<open>i\<close> on, each made from the fields of the document at that index, and has printed
  the progress lines of the indices divisible by 100.
\<close>

lemma process_from_Inr:
  assumes "process_from L input i enc out w = (Inr out', enc', w')" and "i \<le> json_size input"
  shows "\<exists>new. out' = out @ new \<and> length new = json_size input - i
        \<and> (\<forall>k<length new. \<exists>doc t id' emb. json_at input (i + k) = Inr doc
              \<and> doc_fields L doc = Inr (t, id') \<and> new ! k = make_entry id' t emb
              \<and> int (length emb) = sint (n_embd enc))
        \<and> stdout w' = stdout w @ map (\<lambda>k. progress_line k (json_size input))
                                     (filter (\<lambda>k. k mod 100 = 0) [i..<json_size input])"
  using assms
proof (induction "json_size input - i" arbitrary: i enc out w)
  case 0
  then show ?case by (simp add: process_from_stop)
next
  case (Suc n)
  then have lt: "i < json_size input" by simp
  obtain r1 enc1 w1 where pd: "process_doc L input i enc w = (r1, enc1, w1)"
    by (cases "process_doc L input i enc w") auto
  show ?case
  proof (cases r1)
    case (Inl e)
    with Suc.prems lt pd show ?thesis by (simp add: process_from_err)
  next
    case (Inr entry)
    with pd have pd': "process_doc L input i enc w = (Inr entry, enc1, w1)" by simp
    from Suc.prems lt pd'
    have run: "process_from L input (i + 1) enc1 (out @ [entry]) w1 = (Inr out', enc', w')"
      by (simp add: process_from_step)
    from Suc.hyps lt have n: "n = json_size input - (i + 1)" by simp
    from lt have le: "i + 1 \<le> json_size input" by simp
    from Suc.hyps(1) [OF n run le]
    obtain new where new: "out' = (out @ [entry]) @ new" "length new = json_size input - (i + 1)"
      and each: "\<forall>k<length new. \<exists>doc t id' emb. json_at input (i + 1 + k) = Inr doc
              \<and> doc_fields L doc = Inr (t, id') \<and> new ! k = make_entry id' t emb
              \<and> int (length emb) = sint (n_embd enc1)"
      and out: "stdout w' = stdout w1 @ map (\<lambda>k. progress_line k (json_size input))
                                     (filter (\<lambda>k. k mod 100 = 0) [i + 1..<json_size input])"
      by blast
    from process_doc_props [OF pd'] have ne: "n_embd enc1 = n_embd enc" by simp
    from process_doc_Inr [OF pd']
    have first: "\<exists>doc t id' emb. json_at input i = Inr doc \<and> doc_fields L doc = Inr (t, id')
           \<and> entry = make_entry id' t emb \<and> int (length emb) = sint (n_embd enc)"
      and out1: "stdout w1 = stdout w @ (if i mod 100 = 0 then [progress_line i (json_size input)] else [])"
      by blast+
    have "\<forall>k<length (entry # new). \<exists>doc t id' emb. json_at input (i + k) = Inr doc
              \<and> doc_fields L doc = Inr (t, id') \<and> (entry # new) ! k = make_entry id' t emb
              \<and> int (length emb) = sint (n_embd enc)"
    proof (intro allI impI)
      fix k assume k: "k < length (entry # new)"
      show "\<exists>doc t id' emb. json_at input (i + k) = Inr doc
              \<and> doc_fields L doc = Inr (t, id') \<and> (entry # new) ! k = make_entry id' t emb
              \<and> int (length emb) = sint (n_embd enc)"
      proof (cases k)
        case 0
        with first show ?thesis by simp
      next
        case (Suc j)
        with k have "j < length new" by simp
        with each ne Suc show ?thesis by simp
      qed
    qed
    moreover have "out' = out @ (entry # new)" using new by simp
    moreover have "length (entry # new) = json_size input - i" using new lt by simp
    moreover have "stdout w' = stdout w @ map (\<lambda>k. progress_line k (json_size input))
                                     (filter (\<lambda>k. k mod 100 = 0) [i..<json_size input])"
      using out out1 lt by (simp add: upt_conv_Cons)
    ultimately show ?thesis by blast
  qed
qed

lemma process_all_Inr:
  assumes "process_from L input 0 enc [] w = (Inr out, enc', w')"
  shows "length out = json_size input"
    and "\<forall>k<length out. \<exists>doc t id' emb. json_at input k = Inr doc
              \<and> doc_fields L doc = Inr (t, id') \<and> out ! k = make_entry id' t emb
              \<and> int (length emb) = sint (n_embd enc)"
    and "stdout w' = stdout w @ map (\<lambda>k. progress_line k (json_size input))
                                     (filter (\<lambda>k. k mod 100 = 0) [0..<json_size input])"
proof -
  from process_from_Inr [OF assms] obtain new
    where n: "out = [] @ new" "length new = json_size input - 0"
      "\<forall>k<length new. \<exists>doc t id' emb. json_at input (0 + k) = Inr doc
              \<and> doc_fields L doc = Inr (t, id') \<and> new ! k = make_entry id' t emb
              \<and> int (length emb) = sint (n_embd enc)"
      "stdout w' = stdout w @ map (\<lambda>k. progress_line k (json_size input))
                                     (filter (\<lambda>k. k mod 100 = 0) [0..<json_size input])"
    by blast
  from n(1,2) show "length out = json_size input" by simp
  from n(1,3) show "\<forall>k<length out. \<exists>doc t id' emb. json_at input k = Inr doc
              \<and> doc_fields L doc = Inr (t, id') \<and> out ! k = make_entry id' t emb
              \<and> int (length emb) = sint (n_embd enc)" by simp
  from n(4) show "stdout w' = stdout w @ map (\<lambda>k. progress_line k (json_size input))
                                     (filter (\<lambda>k. k mod 100 = 0) [0..<json_size input])" .
qed

subsection \<open>The driver\<close>

lemma try_block_Inr0:
  assumes "try_block L content w1 = (Inr 0, w')"
  shows "\<exists>input enc w4 out enc' w5.
           json_parse L content = Some input
         \<and> BGEEncoder_new L model_path
              (print_out (''Loading BGE model from '' @ model_path @ ''...'')
                (print_out (''Found '' @ show_nat (json_size input) @ '' documents'') w1)) = (Inr enc, w4)
         \<and> process_from L input 0 enc [] w4 = (Inr out, enc', w5)
         \<and> writable w5 output_file
         \<and> files w' = (files w5)(output_file \<mapsto> json_dump L 2 (JArray out))
         \<and> stdout w' = stdout w5 @ [''Writing results to '' @ output_file @ ''...'',
                ''Successfully processed '' @ show_nat (length out) @ '' documents'',
                ''Output saved to '' @ output_file]"
  using assms
  by (auto simp: try_block_def Let_def
      split: option.split_asm sum.split_asm prod.split_asm if_split_asm)

lemma try_block_files:
  assumes "try_block L content w1 = (r, w')" and "r \<noteq> Inr 0"
  shows "files w' = files w1"
  using assms
  by (auto simp: try_block_def Let_def
      split: option.split_asm sum.split_asm prod.split_asm if_split_asm
      dest!: BGEEncoder_new_world process_from_props)

lemma try_block_codes:
  assumes "try_block L content w1 = (Inr rc, w')"
  shows "rc = 0 \<or> rc = 1"
  using assms
  by (auto simp: try_block_def Let_def
      split: option.split_asm sum.split_asm prod.split_asm if_split_asm)

lemma main_codes: "fst (main L w) = 0 \<or> fst (main L w) = 1"
  by (auto simp: main_def Let_def split: option.splits sum.splits prod.splits
      dest: try_block_codes)

lemma main_failure_files:
  assumes "fst (main L w) \<noteq> 0"
  shows "files (snd (main L w)) = files w"
  using assms
  by (auto simp: main_def Let_def split: option.splits sum.splits prod.splits
      dest: try_block_files)

text \<open>What a run that exits with code 0 has done.\<close>

lemma main_success:
  assumes "main L w = (0, w')"
  shows "\<exists>content input enc w4 out enc' w5.
           files w input_file = Some content
         \<and> json_parse L content = Some input
         \<and> BGEEncoder_new L model_path
              (print_out (''Loading BGE model from '' @ model_path @ ''...'')
                (print_out (''Found '' @ show_nat (json_size input) @ '' documents'')
                  (print_out (''Loading documents from '' @ input_file @ ''...'') w))) = (Inr enc, w4)
         \<and> process_from L input 0 enc [] w4 = (Inr out, enc', w5)
         \<and> files w5 = files w
         \<and> files w' = (files w)(output_file \<mapsto> json_dump L 2 (JArray out))
         \<and> stdout w' = stdout w5 @ [''Writing results to '' @ output_file @ ''...'',
                ''Successfully processed '' @ show_nat (length out) @ '' documents'',
                ''Output saved to '' @ output_file]"
proof -
  from assms obtain content where c: "files w input_file = Some content"
    and t: "try_block L content (print_out (''Loading documents from '' @ input_file @ ''...'') w) = (Inr 0, w')"
    by (auto simp: main_def Let_def split: option.split_asm sum.split_asm prod.split_asm)
  from try_block_Inr0 [OF t] obtain input enc w4 out enc' w5
    where s: "json_parse L content = Some input"
      "BGEEncoder_new L model_path
              (print_out (''Loading BGE model from '' @ model_path @ ''...'')
                (print_out (''Found '' @ show_nat (json_size input) @ '' documents'')
                  (print_out (''Loading documents from '' @ input_file @ ''...'') w))) = (Inr enc, w4)"
      "process_from L input 0 enc [] w4 = (Inr out, enc', w5)"
      "files w' = (files w5)(output_file \<mapsto> json_dump L 2 (JArray out))"
      "stdout w' = stdout w5 @ [''Writing results to '' @ output_file @ ''...'',
                ''Successfully processed '' @ show_nat (length out) @ '' documents'',
                ''Output saved to '' @ output_file]"
    by blast
  from BGEEncoder_new_world [OF s(2)] process_from_props [OF s(3)]
  have "files w5 = files w" by simp
  with c s show ?thesis by auto
qed

subsection \<open>Runs of the concrete engine\<close>

lemmas toy_defs = toy_libs_def toy_world_def toy_encoder_def toy_doc_def toy_docs_def
  toy_dump_def wide_id_docs_def bool_id_docs_def no_text_docs_def
  main_def try_block_def BGEEncoder_new_def BGEEncoder_delete_def process_doc_def encode_def
  make_entry_def Let_def input_file_def output_file_def model_path_def ctx_params_def
  progress_line_def show_int_def

lemma toy_process_doc:
  assumes "i < n" and "n_embd enc = 3"
  shows "\<exists>entry enc' w'.
           process_doc (toy_libs X) (JArray (replicate n toy_doc)) i enc w = (Inr entry, enc', w')
         \<and> n_embd enc' = 3"
  using assms
  by (simp add: process_doc_def encode_def toy_libs_def toy_doc_def Let_def)

lemma toy_process_from:
  assumes "i \<le> n" and "n_embd enc = 3"
  shows "\<exists>out' enc' w'.
           process_from (toy_libs X) (JArray (replicate n toy_doc)) i enc out w = (Inr out', enc', w')"
  using assms
proof (induction "n - i" arbitrary: i enc out w)
  case 0
  then show ?case by (simp add: process_from_stop)
next
  case (Suc k)
  then have lt: "i < n" by simp
  from toy_process_doc [OF lt Suc.prems(2), of X w] obtain entry enc1 w1
    where pd: "process_doc (toy_libs X) (JArray (replicate n toy_doc)) i enc w = (Inr entry, enc1, w1)"
      and ne: "n_embd enc1 = 3"
    by blast
  from Suc.hyps lt have "k = n - (i + 1)" "i + 1 \<le> n" by simp_all
  from Suc.hyps(1) [OF this ne, of "out @ [entry]" w1] lt pd
  show ?case by (simp add: process_from_step)
qed

lemma toy_many_run: "fst (main (toy_libs toy_many) toy_world) = 0"
proof -
  define w4 :: "(unit, nat) world" where
    "w4 = snd (BGEEncoder_new (toy_libs toy_many) model_path
              (print_out (''Loading BGE model from '' @ model_path @ ''...'')
                (print_out (''Found '' @ show_nat (json_size toy_many) @ '' documents'')
                  (print_out (''Loading documents from '' @ input_file @ ''...'') toy_world))))"
  have new: "BGEEncoder_new (toy_libs toy_many) model_path
              (print_out (''Loading BGE model from '' @ model_path @ ''...'')
                (print_out (''Found '' @ show_nat (json_size toy_many) @ '' documents'')
                  (print_out (''Loading documents from '' @ input_file @ ''...'') toy_world)))
             = (Inr toy_encoder, w4)"
    by (simp add: w4_def BGEEncoder_new_def toy_libs_def toy_encoder_def Let_def prod_eq_iff)
  have w: "writable w4 output_file"
    using BGEEncoder_new_world [OF new] by (simp add: toy_world_def)
  from toy_process_from [of 0 250 toy_encoder toy_many "[]" w4] obtain out' enc' w5
    where run: "process_from (toy_libs toy_many) toy_many 0 toy_encoder [] w4 = (Inr out', enc', w5)"
    by (auto simp: toy_many_def toy_encoder_def)
  from process_from_props [OF run] w have "writable w5 output_file" by simp
  with new run show ?thesis
    by (simp add: main_def try_block_def Let_def toy_world_def toy_libs_def)
qed

section \<open>The constructor\<close>

text \<open>
  C8. When the model has been loaded and the creation of the inference context fails,
  the constructor throws, and the last thing it does before that is to free the model:
  the engine calls it made are the backend initialisation, the load, the failed context
  creation and the release of the loaded handle, so the live model handles are what they
  were before the constructor ran.
\<close>

theorem BGEEncoder_new_context_failure:
  fixes L :: "('m, 'v, 'c, 'f) libs"
  assumes "llama_load_model_from_file L p = Some m"
    and "llama_init_from_model L m ctx_params = None"
  shows "fst (BGEEncoder_new L p w) = Inl (runtime_error ''Failed to create context'')
       \<and> calls (snd (BGEEncoder_new L p w)) =
           calls w @ [Backend_load_all, Load_model p, Init_from_model m ctx_params, Model_free m]
       \<and> live_models L (calls (snd (BGEEncoder_new L p w))) = live_models L (calls w)"
  using assms by (simp add: BGEEncoder_new_def Let_def live_models_def)

theorem BGEEncoder_new_context_failure_witness:
  "fst (BGEEncoder_new no_context_libs model_path toy_world)
     = Inl (runtime_error ''Failed to create context'')
   \<and> calls (snd (BGEEncoder_new no_context_libs model_path toy_world))
     = [Backend_load_all, Load_model model_path, Init_from_model () ctx_params, Model_free ()]
   \<and> live_models no_context_libs
        (calls (snd (BGEEncoder_new no_context_libs model_path toy_world))) = []"
  using BGEEncoder_new_context_failure [of no_context_libs model_path "()" toy_world]
  by (simp add: no_context_libs_def toy_libs_def toy_world_def live_models_def)

text \<open>
  C5. The dimension of the model never makes the constructor fail: it returns an encoder
  exactly when the model loads and its context can be created. For such a model of a
  dimension other than 768 the constructor returns the encoder, \<open>get_embedding_dim\<close>
  is the model's own dimension, the mismatch is reported by one warning line on standard
  error, and every embedding \<open>encode\<close> returns for an encoder of that dimension has
  the model's dimension as its length.
\<close>

theorem BGEEncoder_new_dimension_mismatch:
  fixes L :: "('m, 'v, 'c, 'f) libs"
  assumes "llama_load_model_from_file L p = Some m"
    and "llama_init_from_model L m ctx_params = Some c"
    and "llama_n_embd L m \<noteq> 768"
  shows "(\<exists>enc w'. BGEEncoder_new L p w = (Inr enc, w')
       \<and> get_embedding_dim enc = llama_n_embd L m
       \<and> stderr w' = stderr w
           @ [''Warning: Expected embedding dimension 768, got '' @ show_int (sint (llama_n_embd L m))]
           @ (if llama_model_has_encoder L m then []
              else [''Warning: Model does not appear to be an encoder model''])
       \<and> (\<forall>enc' t w1 embedding.
             get_embedding_dim enc' = get_embedding_dim enc
             \<longrightarrow> fst (encode L enc' t w1) = Inr embedding
             \<longrightarrow> int (length embedding) = sint (llama_n_embd L m)))
     \<and> (\<forall>L' :: ('m, 'v, 'c, 'f) libs. \<forall>p' w0.
           (\<exists>enc. fst (BGEEncoder_new L' p' w0) = Inr enc)
             \<longleftrightarrow> (\<exists>m' c'. llama_load_model_from_file L' p' = Some m'
                         \<and> llama_init_from_model L' m' ctx_params = Some c'))"
proof -
  from assms
  have "\<exists>enc w'. BGEEncoder_new L p w = (Inr enc, w')
       \<and> get_embedding_dim enc = llama_n_embd L m
       \<and> stderr w' = stderr w
           @ [''Warning: Expected embedding dimension 768, got '' @ show_int (sint (llama_n_embd L m))]
           @ (if llama_model_has_encoder L m then []
              else [''Warning: Model does not appear to be an encoder model''])
       \<and> (\<forall>enc' t w1 embedding.
             get_embedding_dim enc' = get_embedding_dim enc
             \<longrightarrow> fst (encode L enc' t w1) = Inr embedding
             \<longrightarrow> int (length embedding) = sint (llama_n_embd L m))"
    by (auto simp: BGEEncoder_new_def Let_def get_embedding_dim_def dest: encode_length)
  then show ?thesis
    using BGEEncoder_new_Inr_iff by blast
qed

theorem BGEEncoder_new_dimension_mismatch_witness:
  "llama_n_embd (toy_libs JNull) () \<noteq> 768
   \<and> fst (BGEEncoder_new (toy_libs JNull) model_path toy_world) = Inr toy_encoder
   \<and> stderr (snd (BGEEncoder_new (toy_libs JNull) model_path toy_world))
       = [''Warning: Expected embedding dimension 768, got 3'']
   \<and> fst (encode (toy_libs JNull) toy_encoder ''ab'' toy_world) = Inr [4, 5, 6]"
  using BGEEncoder_new_dimension_mismatch [of "toy_libs JNull" model_path "()" 0 toy_world]
  by (simp add: BGEEncoder_new_def encode_def toy_libs_def toy_world_def toy_encoder_def
        Let_def show_int_def show_nat.simps upt_rec)

section \<open>Tokenization in \<open>encode\<close>\<close>

text \<open>
  C4, as the code has it. The dry run (no buffer, both marker flags set) is taken not to
  return the least \<^verbatim>\<open>int\<close>, whose negation is undefined. The token count is then the
  negated result of the dry run. \<open>encode\<close> throws its tokenization error exactly when
  that count is zero or negative, or when the second tokenization call returns a negative
  number. With a count of zero or less the dry run is the only engine call. With a
  positive count the second call is made with a buffer of exactly that many tokens and
  both marker flags set, and when it does not fail, the batch given to the engine is that
  buffer, of exactly that many tokens.
\<close>

theorem encode_tokenization_error:
  fixes L :: "('m, 'v, 'c, 'f) libs"
  assumes "sint (fst (llama_tokenize L (vocab enc) t 0 True True)) \<noteq> - (2 ^ 31)"
  shows
  "(let n_tokens = - fst (llama_tokenize L (vocab enc) t 0 True True);
        second = llama_tokenize L (vocab enc) t (nat (sint n_tokens)) True True;
        w' = snd (snd (encode L enc t w))
    in sint n_tokens = - sint (fst (llama_tokenize L (vocab enc) t 0 True True))
     \<and> (fst (encode L enc t w) = Inl (runtime_error ''Failed to tokenize text'')
          \<longleftrightarrow> sint n_tokens \<le> 0 \<or> sint (fst second) < 0)
     \<and> (sint n_tokens \<le> 0 \<longrightarrow> calls w' = calls w @ [Tokenize t 0 True True])
     \<and> (0 < sint n_tokens \<longrightarrow>
          (\<exists>rest. calls w' = calls w @ [Tokenize t 0 True True,
                                         Tokenize t (nat (sint n_tokens)) True True] @ rest))
     \<and> (0 < sint n_tokens \<and> 0 \<le> sint (fst second) \<longrightarrow>
          (\<exists>tokens rest. calls w' = calls w @ [Tokenize t 0 True True,
                                                Tokenize t (nat (sint n_tokens)) True True,
                                                Encode tokens] @ rest
             \<and> length tokens = nat (sint n_tokens)
             \<and> tokens = take (nat (sint n_tokens)) (snd second @ replicate (nat (sint n_tokens)) 0))))"
proof -
  define n_tokens where "n_tokens = - fst (llama_tokenize L (vocab enc) t 0 True True)"
  define second where "second = llama_tokenize L (vocab enc) t (nat (sint n_tokens)) True True"
  define w' where "w' = snd (snd (encode L enc t w))"
  note dry = assms
  have z: "sint n_tokens = - sint (fst (llama_tokenize L (vocab enc) t 0 True True))"
    unfolding n_tokens_def using dry by (rule sint_uminus)
  have a: "fst (encode L enc t w) = Inl (runtime_error ''Failed to tokenize text'')
          \<longleftrightarrow> sint n_tokens \<le> 0 \<or> sint (fst second) < 0"
    using dry by (simp add: encode_def Let_def n_tokens_def second_def split: option.splits)
  have b: "sint n_tokens \<le> 0 \<longrightarrow> calls w' = calls w @ [Tokenize t 0 True True]"
    using dry by (simp add: encode_def Let_def n_tokens_def w'_def)
  have c: "0 < sint n_tokens \<longrightarrow>
          (\<exists>rest. calls w' = calls w @ [Tokenize t 0 True True,
                                         Tokenize t (nat (sint n_tokens)) True True] @ rest)"
    using dry by (simp add: encode_def Let_def n_tokens_def w'_def split: option.splits)
  have d: "0 < sint n_tokens \<and> 0 \<le> sint (fst second) \<longrightarrow>
          (\<exists>tokens rest. calls w' = calls w @ [Tokenize t 0 True True,
                                                Tokenize t (nat (sint n_tokens)) True True,
                                                Encode tokens] @ rest
             \<and> length tokens = nat (sint n_tokens)
             \<and> tokens = take (nat (sint n_tokens)) (snd second @ replicate (nat (sint n_tokens)) 0))"
    using dry
    by (auto simp add: encode_def Let_def n_tokens_def second_def w'_def split: option.splits)
  from z a b c d show ?thesis
    unfolding Let_def n_tokens_def second_def w'_def by blast
qed

theorem encode_tokenization_error_witness:
  "sint (fst (llama_tokenize (toy_libs JNull) (vocab toy_encoder) ''ab'' 0 True True)) = - 4
   \<and> fst (encode (toy_libs JNull) toy_encoder ''ab'' toy_world)
     \<noteq> Inl (runtime_error ''Failed to tokenize text'')
   \<and> calls (snd (snd (encode (toy_libs JNull) toy_encoder ''ab'' toy_world)))
      = [Tokenize ''ab'' 0 True True, Tokenize ''ab'' 4 True True, Encode [7, 7, 7, 7],
         Get_embeddings_seq 0]"
proof -
  have d: "sint (fst (llama_tokenize (toy_libs JNull) (vocab toy_encoder) ''ab'' 0 True True))
             \<noteq> - (2 ^ 31)"
    by (simp add: toy_libs_def)
  from encode_tokenization_error [OF d, of toy_world] show ?thesis
    by (simp add: encode_def toy_libs_def toy_encoder_def toy_world_def Let_def)
qed

text \<open>
  With an engine whose dry run reports one token and whose second call then fails, the
  tokenization error is thrown although the reported count is positive.
\<close>

theorem encode_second_tokenize_failure:
  "fst (encode failing_tokenizer_libs toy_encoder ''ab'' toy_world)
     = Inl (runtime_error ''Failed to tokenize text'')
   \<and> fst (llama_tokenize failing_tokenizer_libs (vocab toy_encoder) ''ab'' 0 True True) = - 1
   \<and> sint (- fst (llama_tokenize failing_tokenizer_libs (vocab toy_encoder) ''ab'' 0 True True)) = 1
   \<and> calls (snd (snd (encode failing_tokenizer_libs toy_encoder ''ab'' toy_world)))
       = [Tokenize ''ab'' 0 True True, Tokenize ''ab'' 1 True True]"
  by (simp add: encode_def failing_tokenizer_libs_def toy_libs_def toy_encoder_def toy_world_def
        Let_def)

section \<open>Repeated calls of \<open>encode\<close>\<close>

text \<open>
  C9, as the code has it. \<open>encode\<close> hands the engine the context as the earlier calls
  left it and resets nothing. When the status and the embedding the engine gives for a
  batch do not depend on the context it is given, a second call of \<open>encode\<close> on the
  same text, on the encoder and world the first call left, has the same outcome as the
  first: the same embedding, or the same error.
\<close>

theorem encode_twice:
  fixes L :: "('m, 'v, 'c, 'f) libs"
  assumes "\<forall>c c' tokens.
             fst (llama_encode L c tokens) = fst (llama_encode L c' tokens)
           \<and> llama_get_embeddings_seq L (snd (llama_encode L c tokens)) 0
               = llama_get_embeddings_seq L (snd (llama_encode L c' tokens)) 0"
  shows "fst (encode L (fst (snd (encode L enc t w))) t (snd (snd (encode L enc t w))))
           = fst (encode L enc t w)"
proof -
  obtain r enc1 w1 where e: "encode L enc t w = (r, enc1, w1)"
    by (cases "encode L enc t w") auto
  from encode_props [OF e] have "vocab enc1 = vocab enc" "n_embd enc1 = n_embd enc"
    by simp_all
  with assms have "fst (encode L enc1 t w1) = fst (encode L enc t w)"
    by (rule encode_fst_cong [rotated 2])
  with e show ?thesis by simp
qed

theorem encode_twice_witness:
  "fst (encode stateless_libs toy_encoder ''ab'' toy_world) = Inr [0, 1, 2]
   \<and> ctx (fst (snd (encode stateless_libs toy_encoder ''ab'' toy_world))) = 4
   \<and> fst (encode stateless_libs
           (fst (snd (encode stateless_libs toy_encoder ''ab'' toy_world))) ''ab''
           (snd (snd (encode stateless_libs toy_encoder ''ab'' toy_world)))) = Inr [0, 1, 2]"
proof -
  have i: "\<forall>c c' tokens.
             fst (llama_encode stateless_libs c tokens) = fst (llama_encode stateless_libs c' tokens)
           \<and> llama_get_embeddings_seq stateless_libs (snd (llama_encode stateless_libs c tokens)) 0
               = llama_get_embeddings_seq stateless_libs (snd (llama_encode stateless_libs c' tokens)) 0"
    by (simp add: stateless_libs_def toy_libs_def)
  have a: "fst (encode stateless_libs toy_encoder ''ab'' toy_world) = Inr [0, 1, 2]"
    "ctx (fst (snd (encode stateless_libs toy_encoder ''ab'' toy_world))) = 4"
    by (simp_all add: encode_def stateless_libs_def toy_libs_def toy_encoder_def toy_world_def
          Let_def upt_rec)
  from encode_twice [OF i, of toy_encoder "''ab''" toy_world] a show ?thesis
    by simp
qed

text \<open>
  With an engine whose embedding starts at the number of tokens the context has
  encoded, the second call on the same text returns another vector than the first.
\<close>

theorem encode_twice_differs:
  "fst (encode (toy_libs JNull) toy_encoder ''ab'' toy_world) = Inr [4, 5, 6]
   \<and> fst (encode (toy_libs JNull)
           (fst (snd (encode (toy_libs JNull) toy_encoder ''ab'' toy_world))) ''ab''
           (snd (snd (encode (toy_libs JNull) toy_encoder ''ab'' toy_world)))) = Inr [8, 9, 10]"
  by (simp add: encode_def toy_libs_def toy_encoder_def toy_world_def Let_def upt_rec)

section \<open>The driver\<close>

lemma toy_run:
  "main (toy_libs (JArray toy_docs)) toy_world
     = (0, snd (main (toy_libs (JArray toy_docs)) toy_world))"
  "files (snd (main (toy_libs (JArray toy_docs)) toy_world)) output_file = Some ''7,-2,''"
  by (simp_all add: prod_eq_iff toy_defs process_from.simps show_nat.simps)

lemma toy_loop:
  "fst (process_from (toy_libs (JArray toy_docs)) (JArray toy_docs) 0 toy_encoder [] toy_world)
     = Inr [JObject [(''id'', JInt 7), (''text'', JString ''ab''),
                     (''embedding'', JArray [JFloat 4, JFloat 5, JFloat 6])],
            JObject [(''id'', JInt (- 2)), (''text'', JString ''c''),
                     (''embedding'', JArray [JFloat 7, JFloat 8, JFloat 9])]]"
  by (simp add: toy_defs process_from.simps show_nat.simps upt_rec)

text \<open>
  C1, as the code has it. In a run that exits with code 0 on an input array whose
  documents each hold an integer \<open>id\<close> within the range of a 32-bit signed integer and a
  string \<open>text\<close>, the output file holds the serialised array of as many records, and
  the record at each index has the \<open>id\<close> (as a number) and the \<open>text\<close> of the document
  at that index.
\<close>

theorem main_round_trip:
  fixes L :: "('m, 'v, 'c, 'f) libs"
  assumes "main L w = (0, w')"
    and "files w input_file = Some content"
    and "json_parse L content = Some (JArray docs)"
    and "\<forall>d\<in>set docs. \<exists>idv t. json_index d ''id'' = Inr idv \<and> is_number_integer idv
            \<and> - (2 ^ 31) \<le> integer_value idv \<and> integer_value idv < 2 ^ 31
            \<and> json_index d ''text'' = Inr (JString t)"
  shows "\<exists>out. files w' output_file = Some (json_dump L 2 (JArray out))
       \<and> length out = length docs
       \<and> (\<forall>i<length docs. \<exists>idv idv'.
             json_index (docs ! i) ''id'' = Inr idv
           \<and> json_index (out ! i) ''id'' = Inr idv'
           \<and> is_number_integer idv' \<and> integer_value idv' = integer_value idv
           \<and> json_index (out ! i) ''text'' = json_index (docs ! i) ''text'')"
proof -
  from main_success [OF assms(1)] assms(2,3) obtain enc w4 out enc' w5
    where run: "process_from L (JArray docs) 0 enc [] w4 = (Inr out, enc', w5)"
      and f: "files w' = (files w)(output_file \<mapsto> json_dump L 2 (JArray out))"
    by auto
  note p = process_all_Inr [OF run]
  from p(1) have len: "length out = length docs" by simp
  have "\<exists>idv idv'. json_index (docs ! i) ''id'' = Inr idv
           \<and> json_index (out ! i) ''id'' = Inr idv'
           \<and> is_number_integer idv' \<and> integer_value idv' = integer_value idv
           \<and> json_index (out ! i) ''text'' = json_index (docs ! i) ''text''"
    if i: "i < length docs" for i
  proof -
    from i assms(4) obtain idv t
      where v: "json_index (docs ! i) ''id'' = Inr idv" "is_number_integer idv"
        "- (2 ^ 31) \<le> integer_value idv" "integer_value idv < 2 ^ 31"
        "json_index (docs ! i) ''text'' = Inr (JString t)"
      by (meson nth_mem)
    from p(2) i len obtain t' id' emb
      where e: "doc_fields L (docs ! i) = Inr (t', id')" "out ! i = make_entry id' t' emb"
      by fastforce
    from doc_fields_Inr [OF e(1)] v(1,5)
    have g: "get_string (JString t :: 'f json) = Inr t'" "get_int L idv = Inr id'"
      by auto
    from get_int_integer [OF v(2), of L] g(2) v(3,4)
    have "sint id' = integer_value idv"
      by (auto simp: stb_self)
    then have "integer_value (JInt (scast id') :: 'f json) = integer_value idv"
      by (simp add: sint_scast_32_64)
    with e(2) g(1) v show ?thesis
      by (simp add: make_entry_index)
  qed
  with f len show ?thesis by auto
qed

theorem main_round_trip_witness:
  "fst (main (toy_libs (JArray toy_docs)) toy_world) = 0
   \<and> (\<exists>out. files (snd (main (toy_libs (JArray toy_docs)) toy_world)) output_file
              = Some (toy_dump (JArray out))
        \<and> length out = 2
        \<and> json_index (out ! 0) ''text'' = Inr (JString ''ab'')
        \<and> json_index (out ! 1) ''text'' = Inr (JString ''c'')
        \<and> (\<exists>j. json_index (out ! 0) ''id'' = Inr j \<and> integer_value j = 7)
        \<and> (\<exists>j. json_index (out ! 1) ''id'' = Inr j \<and> integer_value j = - 2))"
proof -
  have f: "files toy_world input_file = Some ''''"
    by (simp add: toy_world_def)
  have p: "json_parse (toy_libs (JArray toy_docs)) '''' = Some (JArray toy_docs)"
    by (simp add: toy_libs_def)
  have v: "\<forall>d\<in>set toy_docs. \<exists>idv t. json_index d ''id'' = Inr idv \<and> is_number_integer idv
            \<and> - (2 ^ 31) \<le> integer_value idv \<and> integer_value idv < 2 ^ 31
            \<and> json_index d ''text'' = Inr (JString t)"
    by (simp add: toy_docs_def toy_doc_def)
  from main_round_trip [OF toy_run(1) f p v] obtain out
    where o: "files (snd (main (toy_libs (JArray toy_docs)) toy_world)) output_file
                = Some (json_dump (toy_libs (JArray toy_docs)) 2 (JArray out))"
      "length out = length toy_docs"
      "\<forall>i<length toy_docs. \<exists>idv idv'.
             json_index (toy_docs ! i) ''id'' = Inr idv
           \<and> json_index (out ! i) ''id'' = Inr idv'
           \<and> is_number_integer idv' \<and> integer_value idv' = integer_value idv
           \<and> json_index (out ! i) ''text'' = json_index (toy_docs ! i) ''text''"
    by blast
  from o(3) [rule_format, of 0] have "\<exists>idv idv'.
             json_index (toy_docs ! 0) ''id'' = Inr idv
           \<and> json_index (out ! 0) ''id'' = Inr idv'
           \<and> is_number_integer idv' \<and> integer_value idv' = integer_value idv
           \<and> json_index (out ! 0) ''text'' = json_index (toy_docs ! 0) ''text''"
    by (simp add: toy_docs_def)
  then have a: "json_index (out ! 0) ''text'' = Inr (JString ''ab'')"
    "\<exists>j. json_index (out ! 0) ''id'' = Inr j \<and> integer_value j = 7"
    by (auto simp: toy_docs_def toy_doc_def)
  from o(3) [rule_format, of 1] have "\<exists>idv idv'.
             json_index (toy_docs ! 1) ''id'' = Inr idv
           \<and> json_index (out ! 1) ''id'' = Inr idv'
           \<and> is_number_integer idv' \<and> integer_value idv' = integer_value idv
           \<and> json_index (out ! 1) ''text'' = json_index (toy_docs ! 1) ''text''"
    by (simp add: toy_docs_def)
  then have b: "json_index (out ! 1) ''text'' = Inr (JString ''c'')"
    "\<exists>j. json_index (out ! 1) ''id'' = Inr j \<and> integer_value j = - 2"
    by (auto simp: toy_docs_def toy_doc_def)
  from o(1) have "files (snd (main (toy_libs (JArray toy_docs)) toy_world)) output_file
              = Some (toy_dump (JArray out))"
    by (simp add: toy_libs_def)
  moreover from o(2) have "length out = 2" by (simp add: toy_docs_def)
  ultimately show ?thesis using a b toy_run(1) by (metis fst_conv)
qed

text \<open>
  A document whose \<open>id\<close> is \<open>2\<^sup>3\<^sup>2 + 1\<close>: the run exits with code 0 and the record
  written has the \<open>id\<close> 1.
\<close>

theorem main_round_trip_wide_id:
  "fst (main (toy_libs (JArray wide_id_docs)) toy_world) = 0
   \<and> files (snd (main (toy_libs (JArray wide_id_docs)) toy_world)) output_file = Some ''1,''
   \<and> json_index (wide_id_docs ! 0) ''id'' = Inr (JUInt 4294967297)
   \<and> integer_value (JUInt 4294967297 :: nat json) = 4294967297
   \<and> fst (process_from (toy_libs (JArray wide_id_docs)) (JArray wide_id_docs) 0 toy_encoder []
            toy_world)
       = Inr [JObject [(''id'', JInt 1), (''text'', JString ''ab''),
                       (''embedding'', JArray [JFloat 4, JFloat 5, JFloat 6])]]"
  by (simp add: toy_defs process_from.simps show_nat.simps upt_rec)

text \<open>
  C2. In a run that exits with code 0, the encoder was built from a model that loaded,
  \<open>get_embedding_dim\<close> of that encoder is the model's dimension, and every record of
  the array written to the output file has an \<open>embedding\<close> array of exactly that many
  elements.
\<close>

theorem main_embedding_length:
  fixes L :: "('m, 'v, 'c, 'f) libs"
  assumes "main L w = (0, w')"
  shows "\<exists>m enc out. llama_load_model_from_file L model_path = Some m
       \<and> fst (BGEEncoder_new L model_path w) = Inr enc
       \<and> get_embedding_dim enc = llama_n_embd L m
       \<and> files w' output_file = Some (json_dump L 2 (JArray out))
       \<and> (\<forall>e\<in>set out. \<exists>emb. json_index e ''embedding'' = Inr (JArray emb)
              \<and> int (length emb) = sint (get_embedding_dim enc))"
proof -
  from main_success [OF assms] obtain content input enc w3 w4 out enc' w5
    where new: "BGEEncoder_new L model_path w3 = (Inr enc, w4)"
      and run: "process_from L input 0 enc [] w4 = (Inr out, enc', w5)"
      and f: "files w' = (files w)(output_file \<mapsto> json_dump L 2 (JArray out))"
    by blast
  from BGEEncoder_new_Inr [OF new] obtain m
    where m: "llama_load_model_from_file L model_path = Some m" "n_embd enc = llama_n_embd L m"
    by blast
  from new have e: "fst (BGEEncoder_new L model_path w) = Inr enc"
    using BGEEncoder_new_fst [of L model_path w w3] by simp
  from process_all_Inr(2) [OF run]
  have each: "\<forall>k<length out. \<exists>t id' emb. out ! k = make_entry id' t emb
              \<and> int (length emb) = sint (n_embd enc)"
    by blast
  have "\<forall>e\<in>set out. \<exists>emb. json_index e ''embedding'' = Inr (JArray emb)
              \<and> int (length emb) = sint (get_embedding_dim enc)"
  proof
    fix x assume "x \<in> set out"
    then obtain k where "k < length out" "out ! k = x" by (auto simp: in_set_conv_nth)
    with each obtain t id' emb where "x = make_entry id' t emb" "int (length emb) = sint (n_embd enc)"
      by metis
    then show "\<exists>emb. json_index x ''embedding'' = Inr (JArray emb)
              \<and> int (length emb) = sint (get_embedding_dim enc)"
      by (auto simp: make_entry_index get_embedding_dim_def intro!: exI [of _ "map JFloat emb"])
  qed
  with m e f show ?thesis by (auto simp: get_embedding_dim_def)
qed

theorem main_embedding_length_witness:
  "fst (main (toy_libs (JArray toy_docs)) toy_world) = 0
   \<and> fst (BGEEncoder_new (toy_libs (JArray toy_docs)) model_path toy_world) = Inr toy_encoder
   \<and> sint (get_embedding_dim toy_encoder) = 3
   \<and> fst (process_from (toy_libs (JArray toy_docs)) (JArray toy_docs) 0 toy_encoder [] toy_world)
     = Inr [JObject [(''id'', JInt 7), (''text'', JString ''ab''),
                     (''embedding'', JArray [JFloat 4, JFloat 5, JFloat 6])],
            JObject [(''id'', JInt (- 2)), (''text'', JString ''c''),
                     (''embedding'', JArray [JFloat 7, JFloat 8, JFloat 9])]]"
  using main_embedding_length [OF toy_run(1)] toy_run(1) toy_loop
  by (simp add: BGEEncoder_new_def toy_libs_def toy_encoder_def get_embedding_dim_def Let_def
        prod_eq_iff)

text \<open>
  C3, as the code has it. When the input array holds a document (an object) without the
  key \<open>text\<close> or without the key \<open>id\<close>, or with a \<open>text\<close> that is not a string, or with
  an \<open>id\<close> that is neither a number nor a boolean, the run exits with code 1 and no file
  has been changed: the output file is not written, and one left by an earlier run is as
  it was. No record is skipped to let the run go on.
\<close>

theorem main_aborts_on_malformed_document:
  fixes L :: "('m, 'v, 'c, 'f) libs"
  assumes "files w input_file = Some content"
    and "json_parse L content = Some (JArray docs)"
    and "d \<in> set docs" and "d = JObject kvs"
    and "map_of kvs ''text'' = None \<or> map_of kvs ''id'' = None
       \<or> (\<exists>v. map_of kvs ''text'' = Some v \<and> \<not> is_string v)
       \<or> (\<exists>v. map_of kvs ''id'' = Some v \<and> \<not> is_number v \<and> \<not> is_boolean v)"
  shows "fst (main L w) = 1 \<and> files (snd (main L w)) = files w"
proof -
  have bad: "doc_fields L d \<noteq> Inr (t, id')" for t id'
  proof
    assume "doc_fields L d = Inr (t, id')"
    from doc_fields_Inr [OF this] obtain jt ji
      where j: "json_index d ''text'' = Inr jt" "get_string jt = Inr t"
        "json_index d ''id'' = Inr ji" "get_int L ji = Inr id'"
      by blast
    from j(2) have "is_string jt" by (cases jt) simp_all
    moreover from j(4) have "is_number ji \<or> is_boolean ji" by (cases ji) simp_all
    ultimately show False
      using assms(4,5) j(1,3) by (auto split: option.split_asm)
  qed
  have "fst (main L w) \<noteq> 0"
  proof
    assume "fst (main L w) = 0"
    then have "main L w = (0, snd (main L w))" by (simp add: prod_eq_iff)
    from main_success [OF this] assms(1,2) obtain enc w4 out enc' w5
      where run: "process_from L (JArray docs) 0 enc [] w4 = (Inr out, enc', w5)"
      by auto
    from assms(3) obtain k where k: "k < length docs" "docs ! k = d"
      by (auto simp: in_set_conv_nth)
    from process_all_Inr(1,2) [OF run] k
    have "\<exists>t id'. doc_fields L d = Inr (t, id')" by fastforce
    with bad show False by blast
  qed
  with main_codes [of L w] main_failure_files [of L w] show ?thesis by auto
qed

theorem main_aborts_on_malformed_document_witness:
  "fst (main (toy_libs (JArray no_text_docs)) toy_world) = 1
   \<and> files (snd (main (toy_libs (JArray no_text_docs)) toy_world)) output_file = None
   \<and> stderr (snd (main (toy_libs (JArray no_text_docs)) toy_world))
       = [''Warning: Expected embedding dimension 768, got 3'', ''Error: library exception'']"
proof -
  have f: "files toy_world input_file = Some ''''"
    by (simp add: toy_world_def)
  have p: "json_parse (toy_libs (JArray no_text_docs)) '''' = Some (JArray no_text_docs)"
    by (simp add: toy_libs_def)
  have d: "JObject [(''id'', JUInt 8)] \<in> set no_text_docs"
    by (simp add: no_text_docs_def)
  have b: "map_of [(''id'', JUInt 8 :: nat json)] ''text'' = None
       \<or> map_of [(''id'', JUInt 8 :: nat json)] ''id'' = None
       \<or> (\<exists>v. map_of [(''id'', JUInt 8 :: nat json)] ''text'' = Some v \<and> \<not> is_string v)
       \<or> (\<exists>v. map_of [(''id'', JUInt 8 :: nat json)] ''id'' = Some v \<and> \<not> is_number v
             \<and> \<not> is_boolean v)"
    by simp
  from main_aborts_on_malformed_document [OF f p d refl b]
  have "fst (main (toy_libs (JArray no_text_docs)) toy_world) = 1"
    "files (snd (main (toy_libs (JArray no_text_docs)) toy_world)) output_file = None"
    by (simp_all add: toy_world_def input_file_def output_file_def)
  moreover have "stderr (snd (main (toy_libs (JArray no_text_docs)) toy_world))
       = [''Warning: Expected embedding dimension 768, got 3'', ''Error: library exception'']"
    by (simp add: toy_defs what_def process_from.simps show_nat.simps)
  ultimately show ?thesis by simp
qed

text \<open>
  A document whose \<open>id\<close> is the boolean \<open>true\<close>: the run exits with code 0 and writes
  the output file, with the \<open>id\<close> 1.
\<close>

theorem main_accepts_boolean_id:
  "fst (main (toy_libs (JArray bool_id_docs)) toy_world) = 0
   \<and> files toy_world output_file = None
   \<and> files (snd (main (toy_libs (JArray bool_id_docs)) toy_world)) output_file = Some ''1,''
   \<and> json_index (bool_id_docs ! 0) ''id'' = Inr (JBool True)
   \<and> \<not> is_number (JBool True :: nat json)"
  by (simp add: toy_defs process_from.simps show_nat.simps upt_rec)

text \<open>
  C6, as the code has it. When the input file can be opened and parses to the empty
  array, the model loads, its context is created and the output file can be opened for
  writing, the run exits with code 0 and the output file holds the serialised empty array;
  no other file is changed.
\<close>

theorem main_empty_input:
  fixes L :: "('m, 'v, 'c, 'f) libs"
  assumes "files w input_file = Some content"
    and "json_parse L content = Some (JArray [])"
    and "llama_load_model_from_file L model_path = Some m"
    and "llama_init_from_model L m ctx_params = Some c"
    and "writable w output_file"
  shows "fst (main L w) = 0
       \<and> files (snd (main L w)) = (files w)(output_file \<mapsto> json_dump L 2 (JArray []))"
  using assms
  by (simp add: main_def try_block_def BGEEncoder_new_def Let_def process_from_stop)

theorem main_empty_input_witness:
  "fst (main (toy_libs (JArray [])) toy_world) = 0
   \<and> files (snd (main (toy_libs (JArray [])) toy_world)) output_file
       = Some (toy_dump (JArray []))
   \<and> toy_dump (JArray []) = ''''"
proof -
  have "files toy_world input_file = Some ''''"
    and "json_parse (toy_libs (JArray [])) '''' = Some (JArray [])"
    and "llama_load_model_from_file (toy_libs (JArray [])) model_path = Some ()"
    and "llama_init_from_model (toy_libs (JArray [])) () ctx_params = Some 0"
    and "writable toy_world output_file"
    by (simp_all add: toy_world_def toy_libs_def)
  from main_empty_input [OF this] show ?thesis
    by (simp add: toy_libs_def toy_dump_def)
qed

text \<open>
  The same run in a world where the output file cannot be opened: the input is the
  empty array and the model loads, and the run exits with code 1 without an output file.
\<close>

theorem main_empty_input_not_writable:
  "files read_only_world input_file = Some ''''
   \<and> json_parse (toy_libs (JArray [])) '''' = Some (JArray [])
   \<and> llama_load_model_from_file (toy_libs (JArray [])) model_path = Some ()
   \<and> llama_init_from_model (toy_libs (JArray [])) () ctx_params = Some 0
   \<and> fst (main (toy_libs (JArray [])) read_only_world) = 1
   \<and> files (snd (main (toy_libs (JArray [])) read_only_world)) output_file = None
   \<and> stderr (snd (main (toy_libs (JArray [])) read_only_world))
       = [''Warning: Expected embedding dimension 768, got 3'',
          ''Error: Could not open preprocessed_documents.json for writing'']"
  by (simp add: read_only_world_def toy_defs process_from.simps show_nat.simps)

text \<open>
  C7. A run that exits with code 0 on an input of \<open>n\<close> documents has written to
  standard output its four opening lines, then the progress lines of exactly the indices
  below \<open>n\<close> that are divisible by 100, in order, then its three closing lines. For 250
  documents the progress lines are those of the indices 0, 100 and 200. Whatever becomes
  of it, one pass through the loop's body for the document at index \<open>i\<close> prints the
  progress line of \<open>i\<close> when 100 divides \<open>i\<close>, and nothing otherwise.
\<close>

theorem main_progress_lines:
  fixes L :: "('m, 'v, 'c, 'f) libs"
  assumes "main L w = (0, w')"
    and "files w input_file = Some content"
    and "json_parse L content = Some input"
  shows "(\<exists>m. llama_load_model_from_file L model_path = Some m
         \<and> stdout w' = stdout w
             @ [''Loading documents from documents.json...'',
                ''Found '' @ show_nat (json_size input) @ '' documents'',
                ''Loading BGE model from bge-base-en-v1.5-f32.gguf...'',
                ''Model loaded. Embedding dimension: '' @ show_int (sint (llama_n_embd L m))]
             @ map (\<lambda>i. progress_line i (json_size input))
                 (filter (\<lambda>i. i mod 100 = 0) [0..<json_size input])
             @ [''Writing results to preprocessed_documents.json...'',
                ''Successfully processed '' @ show_nat (json_size input) @ '' documents'',
                ''Output saved to preprocessed_documents.json''])
       \<and> map (\<lambda>i. progress_line i 250) (filter (\<lambda>i. i mod 100 = 0) [0..<250])
           = [''Processing document 0/250...'', ''Processing document 100/250...'',
              ''Processing document 200/250...'']
       \<and> (\<forall>i doc enc0 w0. json_at input i = Inr doc \<longrightarrow>
             stdout (snd (snd (process_doc L input i enc0 w0)))
               = stdout w0 @ (if i mod 100 = 0 then [progress_line i (json_size input)] else []))"
proof -
  from main_success [OF assms(1)] assms(2,3) obtain enc w4 out enc' w5
    where new: "BGEEncoder_new L model_path
              (print_out (''Loading BGE model from '' @ model_path @ ''...'')
                (print_out (''Found '' @ show_nat (json_size input) @ '' documents'')
                  (print_out (''Loading documents from '' @ input_file @ ''...'') w))) = (Inr enc, w4)"
      and run: "process_from L input 0 enc [] w4 = (Inr out, enc', w5)"
      and out: "stdout w' = stdout w5 @ [''Writing results to '' @ output_file @ ''...'',
                ''Successfully processed '' @ show_nat (length out) @ '' documents'',
                ''Output saved to '' @ output_file]"
    by auto
  from BGEEncoder_new_Inr [OF new] obtain m
    where m: "llama_load_model_from_file L model_path = Some m"
      and o4: "stdout w4 = stdout w @ [''Loading documents from '' @ input_file @ ''...'',
                ''Found '' @ show_nat (json_size input) @ '' documents'',
                ''Loading BGE model from '' @ model_path @ ''...'',
                ''Model loaded. Embedding dimension: '' @ show_int (sint (llama_n_embd L m))]"
    by auto
  note p = process_all_Inr [OF run]
  have "stdout w' = stdout w
             @ [''Loading documents from documents.json...'',
                ''Found '' @ show_nat (json_size input) @ '' documents'',
                ''Loading BGE model from bge-base-en-v1.5-f32.gguf...'',
                ''Model loaded. Embedding dimension: '' @ show_int (sint (llama_n_embd L m))]
             @ map (\<lambda>i. progress_line i (json_size input))
                 (filter (\<lambda>i. i mod 100 = 0) [0..<json_size input])
             @ [''Writing results to preprocessed_documents.json...'',
                ''Successfully processed '' @ show_nat (json_size input) @ '' documents'',
                ''Output saved to preprocessed_documents.json'']"
    using out o4 p(1,3) by (simp add: input_file_def output_file_def model_path_def)
  moreover have "filter (\<lambda>i. i mod 100 = 0) [0..<250] = [0, 100, 200 :: nat]"
    by code_simp
  then have "map (\<lambda>i. progress_line i 250) (filter (\<lambda>i. i mod 100 = 0) [0..<250])
           = [''Processing document 0/250...'', ''Processing document 100/250...'',
              ''Processing document 200/250...'']"
    by (simp add: progress_line_def show_nat.simps)
  ultimately show ?thesis using m process_doc_stdout by blast
qed

theorem main_progress_lines_witness:
  "fst (main (toy_libs toy_many) toy_world) = 0
   \<and> json_size toy_many = 250
   \<and> stdout (snd (main (toy_libs toy_many) toy_world))
       = [''Loading documents from documents.json...'',
          ''Found 250 documents'',
          ''Loading BGE model from bge-base-en-v1.5-f32.gguf...'',
          ''Model loaded. Embedding dimension: 3'',
          ''Processing document 0/250...'',
          ''Processing document 100/250...'',
          ''Processing document 200/250...'',
          ''Writing results to preprocessed_documents.json...'',
          ''Successfully processed 250 documents'',
          ''Output saved to preprocessed_documents.json'']"
proof -
  have run: "main (toy_libs toy_many) toy_world = (0, snd (main (toy_libs toy_many) toy_world))"
    by (simp add: prod_eq_iff toy_many_run)
  have f: "files toy_world input_file = Some ''''"
    by (simp add: toy_world_def)
  have p: "json_parse (toy_libs toy_many) '''' = Some toy_many"
    by (simp add: toy_libs_def)
  have n: "json_size toy_many = 250"
    by (simp add: toy_many_def)
  from main_progress_lines [OF run f p] n
  have "stdout (snd (main (toy_libs toy_many) toy_world))
       = [''Loading documents from documents.json...'',
          ''Found 250 documents'',
          ''Loading BGE model from bge-base-en-v1.5-f32.gguf...'',
          ''Model loaded. Embedding dimension: 3'',
          ''Processing document 0/250...'',
          ''Processing document 100/250...'',
          ''Processing document 200/250...'',
          ''Writing results to preprocessed_documents.json...'',
          ''Successfully processed 250 documents'',
          ''Output saved to preprocessed_documents.json'']"
    by (simp add: toy_libs_def toy_world_def show_nat.simps show_int_def)
  with toy_many_run n show ?thesis by simp
qed

text \<open>
  C10, as the code has it. A document whose \<open>id\<close> the library holds as an integer (a
  number from \<open>-2\<^sup>6\<^sup>3\<close> to \<open>2\<^sup>6\<^sup>4 - 1\<close>) outside the range of a 32-bit signed
  integer does not make the run fail: the conversion succeeds and gives the value reduced
  modulo \<open>2\<^sup>3\<^sup>2\<close> and read as signed, which differs from the \<open>id\<close> of the input;
  whenever the encoder then returns an embedding, the loop's body returns a record, and
  the \<open>id\<close> of that record is the narrowed value.
\<close>

theorem id_narrowed_to_32_bits:
  fixes L :: "('m, 'v, 'c, 'f) libs"
  assumes "json_at input i = Inr doc"
    and "json_index doc ''text'' = Inr (JString t)"
    and "json_index doc ''id'' = Inr idv"
    and "is_number_integer idv"
    and "integer_value idv < - (2 ^ 31) \<or> 2 ^ 31 \<le> integer_value idv"
  shows "- (2 ^ 63) \<le> integer_value idv \<and> integer_value idv < 2 ^ 64
       \<and> (\<exists>id'. get_int L idv = Inr id'
       \<and> sint id' = (integer_value idv + 2 ^ 31) mod 2 ^ 32 - 2 ^ 31
       \<and> sint id' \<noteq> integer_value idv
       \<and> (\<forall>emb enc' w'.
            encode L enc t (if i mod 100 = 0
                            then print_out (progress_line i (json_size input)) w else w)
              = (Inr emb, enc', w')
            \<longrightarrow> (\<exists>entry j. process_doc L input i enc w = (Inr entry, enc', w')
                   \<and> json_index entry ''id'' = Inr j \<and> is_number_integer j
                   \<and> integer_value j = sint id')))"
proof -
  from get_int_integer [OF assms(4), of L] obtain id'
    where g: "get_int L idv = Inr id'" "sint id' = signed_take_bit 31 (integer_value idv)"
    by blast
  from g(2) have a: "sint id' = (integer_value idv + 2 ^ 31) mod 2 ^ 32 - 2 ^ 31"
    by (simp add: stb_mod)
  from g(2) assms(5) have b: "sint id' \<noteq> integer_value idv"
    using stb_neq [of "integer_value idv"] by auto
  have c: "\<exists>entry j. process_doc L input i enc w = (Inr entry, enc', w')
                   \<and> json_index entry ''id'' = Inr j \<and> is_number_integer j
                   \<and> integer_value j = sint id'"
    if "encode L enc t (if i mod 100 = 0
                            then print_out (progress_line i (json_size input)) w else w)
              = (Inr emb, enc', w')" for emb enc' w'
  proof -
    from that assms(1,2,3) g(1)
    have "process_doc L input i enc w = (Inr (make_entry id' t emb), enc', w')"
      by (simp add: process_doc_def Let_def)
    moreover have "integer_value (JInt (scast id') :: 'f json) = sint id'"
      by (simp add: sint_scast_32_64)
    moreover have "json_index (make_entry id' t emb) ''id'' = Inr (JInt (scast id') :: 'f json)"
      by (simp add: make_entry_index)
    moreover have "is_number_integer (JInt (scast id') :: 'f json)"
      by simp
    ultimately show ?thesis by blast
  qed
  from integer_value_range [OF assms(4)] g(1) a b c show ?thesis by blast
qed

theorem id_narrowed_to_32_bits_witness:
  "integer_value (JUInt 4294967297 :: nat json) = 4294967297
   \<and> get_int (toy_libs JNull) (JUInt 4294967297) = Inr 1
   \<and> fst (process_doc (toy_libs JNull) (JArray wide_id_docs) 0 toy_encoder toy_world)
       = Inr (JObject [(''id'', JInt 1), (''text'', JString ''ab''),
                       (''embedding'', JArray [JFloat 4, JFloat 5, JFloat 6])])"
proof -
  have "json_at (JArray wide_id_docs) 0 = Inr (wide_id_docs ! 0)"
    and "json_index (wide_id_docs ! 0) ''text'' = Inr (JString ''ab'')"
    and "json_index (wide_id_docs ! 0) ''id'' = Inr (JUInt 4294967297)"
    and "is_number_integer (JUInt 4294967297 :: nat json)"
    and "integer_value (JUInt 4294967297 :: nat json) < - (2 ^ 31)
           \<or> 2 ^ 31 \<le> integer_value (JUInt 4294967297 :: nat json)"
    by (simp_all add: wide_id_docs_def)
  from id_narrowed_to_32_bits [OF this, where L = "toy_libs JNull"] show ?thesis
    by (simp add: toy_defs upt_rec)
qed

text \<open>
  A document whose \<open>id\<close> is the integer \<open>2\<^sup>6\<^sup>4\<close>, which the library holds as a
  floating-point number, on a machine that converts a number too large for an \<^verbatim>\<open>int\<close> to
  the least \<^verbatim>\<open>int\<close>: the run exits with code 0 and the \<open>id\<close> written is
  \<open>-2\<^sup>3\<^sup>1\<close>, where reduction modulo \<open>2\<^sup>3\<^sup>2\<close> would give 0.
\<close>

theorem id_beyond_64_bits_not_reduced:
  "json_index (huge_id_docs ! 0) ''id'' = Inr (JFloat 18446744073709551616)
   \<and> \<not> is_number_integer (JFloat 18446744073709551616 :: nat json)
   \<and> get_int (saturating_libs (JArray huge_id_docs)) (JFloat 18446744073709551616)
       = Inr (- 2147483648)
   \<and> ((18446744073709551616 :: int) + 2 ^ 31) mod 2 ^ 32 - 2 ^ 31 = 0
   \<and> fst (main (saturating_libs (JArray huge_id_docs)) toy_world) = 0
   \<and> files (snd (main (saturating_libs (JArray huge_id_docs)) toy_world)) output_file
       = Some ''-2147483648,''"
  by (simp add: saturating_libs_def huge_id_docs_def toy_defs process_from.simps show_nat.simps
        upt_rec)


end
